theory Spec2Isabelle
  imports Complex_Main
begin

section \<open>Numbers, tensors and errors\<close>

text \<open>
  The graph built by \<^verbatim>\<open>model.py\<close> computes with floating-point tensors. Here a
  number is a real, so rounding, overflow and NaN are outside the model (the anneal
  schedule, which divides by its arguments, says where it leaves the reals). A differentiable
  number carries, next to its value, its derivative along one direction of the trainable
  parameters (a dual number): \<^verbatim>\<open>tf.stop_gradient\<close> keeps the value and
  drops the derivative, which is all that distinguishes it from the identity.
\<close>

datatype dual = Dual (primal: real) (tangent: real)

instantiation dual :: comm_ring_1
begin

definition zero_dual :: dual where
  "zero_dual = Dual 0 0"

definition one_dual :: dual where
  "one_dual = Dual 1 0"

definition plus_dual :: "dual \<Rightarrow> dual \<Rightarrow> dual" where
  "plus_dual x y = Dual (primal x + primal y) (tangent x + tangent y)"

definition uminus_dual :: "dual \<Rightarrow> dual" where
  "uminus_dual x = Dual (- primal x) (- tangent x)"

definition minus_dual :: "dual \<Rightarrow> dual \<Rightarrow> dual" where
  "minus_dual x y = Dual (primal x - primal y) (tangent x - tangent y)"

definition times_dual :: "dual \<Rightarrow> dual \<Rightarrow> dual" where
  "times_dual x y = Dual (primal x * primal y) (primal x * tangent y + tangent x * primal y)"

instance
  by standard
    (simp_all add: zero_dual_def one_dual_def plus_dual_def uminus_dual_def minus_dual_def
      times_dual_def algebra_simps)

end

text \<open>A Python float or a constant tensor: no derivative.\<close>

definition const :: "real \<Rightarrow> dual" where
  "const r = Dual r 0"

text \<open>\<^verbatim>\<open>tf.stop_gradient\<close> on one number.\<close>

definition stop_gradient :: "dual \<Rightarrow> dual" where
  "stop_gradient x = Dual (primal x) 0"

text \<open>
  The exceptions of the source. The spec calls \<^verbatim>\<open>NotImplementedError\<close> raised
  by the schedule UnsupportedScheduleKind, and the failed shape assertion of the
  accumulator ShapeMismatch.
\<close>

datatype error = NotImplementedError | AssertionError | TypeError | AttributeError | ValueError

text \<open>
  The tensors the accumulator holds: a scalar (shape \<open>[]\<close>) or a per-sample vector
  (shape \<open>[batch]\<close>).
\<close>

datatype tensor = Scalar dual | Vec "dual list"

fun get_shape :: "tensor \<Rightarrow> nat list" where
  "get_shape (Scalar x) = []"
| "get_shape (Vec xs) = [length xs]"

text \<open>
  An elementwise binary operator of TensorFlow with its static broadcasting rule for
  ranks 0 and 1: equal lengths, or one side of length one; anything else is refused when
  the operator is built.
\<close>

fun broadcast :: "(dual \<Rightarrow> dual \<Rightarrow> dual) \<Rightarrow> tensor \<Rightarrow> tensor \<Rightarrow> error + tensor" where
  "broadcast f (Scalar a) (Scalar b) = Inr (Scalar (f a b))"
| "broadcast f (Scalar a) (Vec ys) = Inr (Vec (map (f a) ys))"
| "broadcast f (Vec xs) (Scalar b) = Inr (Vec (map (\<lambda>x. f x b) xs))"
| "broadcast f (Vec xs) (Vec ys) =
     (if length xs = length ys then Inr (Vec (map2 f xs ys))
      else if length xs = 1 then Inr (Vec (map (f (hd xs)) ys))
      else if length ys = 1 then Inr (Vec (map (\<lambda>x. f x (hd ys)) xs))
      else Inl ValueError)"

text \<open>Multiplying a tensor by a weight that is a plain number.\<close>

fun scale :: "real \<Rightarrow> tensor \<Rightarrow> tensor" where
  "scale w (Scalar a) = Scalar (a * const w)"
| "scale w (Vec xs) = Vec (map (\<lambda>x. x * const w) xs)"

section \<open>The loss accumulator (\<^verbatim>\<open>ops.py\<close>, class Loss)\<close>

record Loss =
  priv_value :: "tensor option"
  priv_per_sample :: "tensor option"

text \<open>\<^verbatim>\<open>Loss()\<close>: both aggregates start as None.\<close>

definition Loss_init :: Loss where
  "Loss_init = \<lparr>priv_value = None, priv_per_sample = None\<rparr>"

text \<open>The two attribute names \<^verbatim>\<open>'_value'\<close> and \<^verbatim>\<open>'_per_sample'\<close>.\<close>

datatype attr_name = Attr_value | Attr_per_sample

fun getattr :: "Loss \<Rightarrow> attr_name \<Rightarrow> tensor option" where
  "getattr self Attr_value = priv_value self"
| "getattr self Attr_per_sample = priv_per_sample self"

fun setattr :: "Loss \<Rightarrow> attr_name \<Rightarrow> tensor option \<Rightarrow> Loss" where
  "setattr self Attr_value v = self\<lparr>priv_value := v\<rparr>"
| "setattr self Attr_per_sample v = self\<lparr>priv_per_sample := v\<rparr>"

text \<open>
  \<^verbatim>\<open>_update(self, name, expr, weight)\<close>. An \<open>expr\<close> of None cannot be
  multiplied (TypeError); a held aggregate of another shape fails the assertion.
\<close>

definition Loss_update :: "Loss \<Rightarrow> attr_name \<Rightarrow> tensor option \<Rightarrow> real \<Rightarrow> error + Loss" where
  "Loss_update self name expr weight =
     (case expr of
        None \<Rightarrow> Inl TypeError
      | Some e0 \<Rightarrow>
          (let e = scale weight e0 in
           case getattr self name of
             None \<Rightarrow> Inr (setattr self name (Some e))
           | Some v \<Rightarrow>
               if get_shape v = get_shape e
               then (case broadcast (+) v e of
                       Inl err \<Rightarrow> Inl err
                     | Inr s \<Rightarrow> Inr (setattr self name (Some s)))
               else Inl AssertionError))"

text \<open>
  The first argument of \<^verbatim>\<open>add\<close> is either another accumulator or an
  expression (possibly None).
\<close>

datatype loss_arg = Of_Loss Loss | Of_expr "tensor option"

definition Loss_add :: "Loss \<Rightarrow> loss_arg \<Rightarrow> tensor option \<Rightarrow> real \<Rightarrow> error + Loss" where
  "Loss_add self loss per_sample weight =
     (let (loss', per_sample') =
            (case loss of
               Of_Loss l \<Rightarrow> (priv_value l, priv_per_sample l)
             | Of_expr e \<Rightarrow> (e, per_sample))
      in case Loss_update self Attr_value loss' weight of
           Inl err \<Rightarrow> Inl err
         | Inr self1 \<Rightarrow> Loss_update self1 Attr_per_sample per_sample' weight)"

text \<open>
  \<^verbatim>\<open>_get_value(self, name)\<close> reads \<^verbatim>\<open>self._value\<close> whatever the name is;
  \<^verbatim>\<open>tf.zeros([])\<close> stands in for None.
\<close>

definition Loss_get_value :: "Loss \<Rightarrow> attr_name \<Rightarrow> tensor" where
  "Loss_get_value self name = (case priv_value self of None \<Rightarrow> Scalar 0 | Some v \<Rightarrow> v)"

definition Loss_value :: "Loss \<Rightarrow> tensor" where
  "Loss_value self = Loss_get_value self Attr_value"

definition Loss_per_sample :: "Loss \<Rightarrow> tensor" where
  "Loss_per_sample self = Loss_get_value self Attr_per_sample"

section \<open>The anneal schedule (\<^verbatim>\<open>AIRModel._anneal_weight\<close>)\<close>

text \<open>
  The schedule casts its arguments to float64 and divides by \<^verbatim>\<open>anneal_steps\<close>,
  \<^verbatim>\<open>steps_div\<close> and \<^verbatim>\<open>init_val\<close>. Float division by zero does not fail:
  it yields an infinity or NaN, and the graph computes on with it. A value of the schedule
  is therefore a \<open>real option\<close>: \<open>Some x\<close> is the number \<open>x\<close>; \<open>None\<close> says that
  the computation has divided by zero or taken a power that is no real number, and what
  float64 arithmetic returns from there on (NaN, an infinity, or a number computed from
  one, such as \<^verbatim>\<open>final\<close> after the clamp of \<open>-inf\<close>) is not determined here.
\<close>

definition fdiv :: "real \<Rightarrow> real \<Rightarrow> real option" where
  "fdiv x y = (if y = 0 then None else Some (x / y))"

text \<open>
  \<^verbatim>\<open>tf.pow\<close> on two numbers: 1 for exponent 0 (also at base 0); at base 0 it is
  0 for a positive exponent and infinite for a negative one; a negative base has a power
  only for an integer exponent, otherwise the result is NaN.
\<close>

definition fpow :: "real \<Rightarrow> real \<Rightarrow> real option" where
  "fpow x y =
     (if y = 0 then Some 1
      else if 0 < x then Some (x powr y)
      else if x = 0 then (if 0 < y then Some 0 else None)
      else if y = of_int \<lfloor>y\<rfloor> then Some ((if even \<lfloor>y\<rfloor> then 1 else - 1) * (- x) powr y)
      else None)"

text \<open>
  \<^verbatim>\<open>tf.train.exponential_decay\<close> without staircase:
  \<open>p = global_step / decay_steps\<close>, then \<open>learning_rate * pow(decay_rate, p)\<close>.
  The decay rate it receives is itself a value of the graph.
\<close>

definition exponential_decay :: "real \<Rightarrow> real \<Rightarrow> real \<Rightarrow> real option \<Rightarrow> real option" where
  "exponential_decay learning_rate global_step decay_steps decay_rate =
     Option.bind decay_rate (\<lambda>r.
     Option.bind (fdiv global_step decay_steps) (\<lambda>p.
     map_option (\<lambda>q. learning_rate * q) (fpow r p)))"

definition anneal_weight ::
  "real \<Rightarrow> real \<Rightarrow> string \<Rightarrow> real \<Rightarrow> real \<Rightarrow> real \<Rightarrow> real \<Rightarrow> error + real option" where
  "anneal_weight init_val final_val anneal_type global_step anneal_steps hold_for steps_div =
     (let val = init_val; final = final_val;
          step = max (global_step - hold_for) 0
      in if anneal_type = ''exp'' then
           (let decay_rate = Option.bind (fdiv final val) (\<lambda>b.
                             Option.bind (fdiv steps_div anneal_steps) (\<lambda>e. fpow b e));
                val = exponential_decay val step steps_div decay_rate
            in Inr (map_option (max final) val))
         else if anneal_type = ''linear'' then
           (let val = map_option (\<lambda>q. final + (val - final) * (1 - q)) (fdiv step anneal_steps)
            in Inr (map_option (max final) val))
         else Inl NotImplementedError)"

section \<open>Tensors of higher rank\<close>

text \<open>
  A \<open>[steps, batch]\<close> tensor is a list of rows, one per step; a rank-3 tensor is a list
  of such matrices. The trailing unit axis that the cell puts on \<^verbatim>\<open>presence\<close>
  and \<^verbatim>\<open>presence_prob\<close> is taken as already squeezed away, which is what
  \<^verbatim>\<open>tf.squeeze\<close> does when the batch size and the number of steps are at
  least 2.
\<close>

type_synonym matrix = "dual list list"

type_synonym tensor3 = "dual list list list"

text \<open>\<^verbatim>\<open>tf.reduce_sum(m, 0)\<close>: the column sums, of the static batch size \<open>B\<close>.\<close>

definition reduce_sum0 :: "nat \<Rightarrow> matrix \<Rightarrow> dual list" where
  "reduce_sum0 B m = foldr (map2 (+)) m (replicate B 0)"

text \<open>\<^verbatim>\<open>tf.reduce_sum(t, -1)\<close> of a rank-3 tensor.\<close>

definition reduce_sum_last :: "tensor3 \<Rightarrow> matrix" where
  "reduce_sum_last t = map (map sum_list) t"

text \<open>\<^verbatim>\<open>tf.reduce_mean\<close> over all elements.\<close>

fun reduce_mean :: "tensor \<Rightarrow> dual" where
  "reduce_mean (Scalar a) = a"
| "reduce_mean (Vec xs) = sum_list xs * const (1 / real (length xs))"

text \<open>A unary elementwise operator.\<close>

fun tmap :: "(dual \<Rightarrow> dual) \<Rightarrow> tensor \<Rightarrow> tensor" where
  "tmap f (Scalar a) = Scalar (f a)"
| "tmap f (Vec xs) = Vec (map f xs)"

text \<open>
  Elementwise binary operators on tensors of one shape; operands of different shapes
  are refused (broadcasting of unit axes in ranks 2 and 3 is not modelled).
\<close>

definition mat_map2 :: "(dual \<Rightarrow> dual \<Rightarrow> dual) \<Rightarrow> matrix \<Rightarrow> matrix \<Rightarrow> error + matrix" where
  "mat_map2 f a b =
     (if map length a = map length b then Inr (map2 (map2 f) a b) else Inl ValueError)"

definition t3_map2 :: "(dual \<Rightarrow> dual \<Rightarrow> dual) \<Rightarrow> tensor3 \<Rightarrow> tensor3 \<Rightarrow> error + tensor3" where
  "t3_map2 f a b =
     (if map (map length) a = map (map length) b then Inr (map2 (map2 (map2 f)) a b)
      else Inl ValueError)"

text \<open>\<^verbatim>\<open>tf.cumsum(m, axis=0, reverse=True)\<close>: row \<open>t\<close> becomes the sum of the rows from \<open>t\<close> on.\<close>

fun cumsum_reverse :: "matrix \<Rightarrow> matrix" where
  "cumsum_reverse [] = []"
| "cumsum_reverse (r # rs) =
     (case cumsum_reverse rs of
        [] \<Rightarrow> [r]
      | s # ss \<Rightarrow> map2 (+) r s # s # ss)"

text \<open>Sequencing of steps that may raise.\<close>

definition and_then :: "error + 'a \<Rightarrow> ('a \<Rightarrow> error + 'b) \<Rightarrow> error + 'b" where
  "and_then m f = (case m of Inl e \<Rightarrow> Inl e | Inr x \<Rightarrow> f x)"

text \<open>
  Division, square root and maximum of differentiable numbers, for the normalisation of
  the importance weight.
\<close>

definition ddivide :: "dual \<Rightarrow> dual \<Rightarrow> dual" where
  "ddivide x y =
     Dual (primal x / primal y)
          ((tangent x * primal y - primal x * tangent y) / (primal y * primal y))"

definition dsqrt :: "dual \<Rightarrow> dual" where
  "dsqrt x = Dual (sqrt (primal x)) (tangent x / (2 * sqrt (primal x)))"

definition dmaximum :: "dual \<Rightarrow> dual \<Rightarrow> dual" where
  "dmaximum x y = (if primal y \<le> primal x then x else y)"

section \<open>The model built by \<^verbatim>\<open>AIRModel._build\<close>\<close>

text \<open>
  What \<^verbatim>\<open>tf.nn.dynamic_rnn\<close> returns for the cell (the cell itself, \<^verbatim>\<open>cell.py\<close>,
  is not modelled): the per-step outputs, with the canvas already regrouped
  as \<open>[steps, batch, height, width]\<close> (the reshape only regroups elements).
\<close>

record cell_outputs =
  c_what_loc :: tensor3
  c_what_scale :: tensor3
  c_where_loc :: tensor3
  c_where_scale :: tensor3
  c_presence_prob :: matrix
  c_presence :: matrix
  c_canvas :: "dual list list list list"

text \<open>\<^verbatim>\<open>Normal(loc, scale)\<close> over a batch of images, with one fixed scale.\<close>

record normal =
  n_loc :: tensor3
  n_scale :: real

text \<open>
  The log-density of one Normal, as TensorFlow computes it:
  \<open>- z\<^sup>2 / 2 - (ln (2 \<pi>) / 2 + ln scale)\<close> with \<open>z = (x - loc) / scale\<close>.
\<close>

definition normal_log_prob :: "dual \<Rightarrow> real \<Rightarrow> real \<Rightarrow> dual" where
  "normal_log_prob loc sd x =
     (let z = (const x - loc) * const (1 / sd)
      in const (- 1 / 2) * (z * z) - const (ln (2 * pi) / 2 + ln sd))"

definition log_prob :: "normal \<Rightarrow> real list list list \<Rightarrow> error + tensor3" where
  "log_prob d x =
     (if map (map length) (n_loc d) = map (map length) x
      then Inr (map2 (map2 (map2 (\<lambda>l v. normal_log_prob l (n_scale d) v))) (n_loc d) x)
      else Inl ValueError)"

record AIRModel =
  obs :: "real list list list"
  max_steps :: nat
  batch_size :: nat
  output_std :: real
  discrete_steps :: bool
  output_multiplier :: real
  what_loc :: tensor3
  what_scale :: tensor3
  where_loc :: tensor3
  where_scale :: tensor3
  presence_prob :: matrix
  presence :: matrix
  canvas :: "dual list list list list"
  final_canvas :: tensor3
  output_distrib :: normal
  num_steps_distrib :: matrix
  num_step_per_sample :: "dual list"

text \<open>
  \<^verbatim>\<open>__init__\<close> and \<^verbatim>\<open>_build\<close>: the canvas is multiplied by the output
  multiplier, its last step is the mean of the output distribution; the step-count
  posterior is built from the transposed continuation probabilities, and the realised
  step count is the column sum of the presence bits. \<^verbatim>\<open>canvas[-1]\<close> needs at
  least one step.
\<close>

definition build ::
  "cell_outputs \<Rightarrow> real list list list \<Rightarrow> nat \<Rightarrow> real \<Rightarrow> bool \<Rightarrow> real \<Rightarrow> error + AIRModel" where
  "build cell obs' max_steps' output_std' discrete_steps' output_multiplier' =
     (let batch_size' = length obs';
          canvas' = map (map (map (map (\<lambda>c. c * const output_multiplier')))) (c_canvas cell)
      in if canvas' = [] then Inl ValueError
         else
           (let final_canvas' = last canvas' in
            Inr \<lparr>obs = obs', max_steps = max_steps', batch_size = batch_size',
                 output_std = output_std', discrete_steps = discrete_steps',
                 output_multiplier = output_multiplier',
                 what_loc = c_what_loc cell, what_scale = c_what_scale cell,
                 where_loc = c_where_loc cell, where_scale = c_where_scale cell,
                 presence_prob = c_presence_prob cell, presence = c_presence cell,
                 canvas = canvas', final_canvas = final_canvas',
                 output_distrib = \<lparr>n_loc = final_canvas', n_scale = output_std'\<rparr>,
                 num_steps_distrib = transpose (c_presence_prob cell),
                 num_step_per_sample = reduce_sum0 batch_size' (c_presence cell)\<rparr>))"

text \<open>
  The reconstruction loss of \<^verbatim>\<open>train_step\<close>: the negated log-density of the
  observation, summed over the two image axes for each sample, and its batch mean.
\<close>

definition rec_loss_per_sample :: "AIRModel \<Rightarrow> error + dual list" where
  "rec_loss_per_sample self =
     and_then (log_prob (output_distrib self) (obs self))
       (\<lambda>lp. Inr (map (\<lambda>img. sum_list (map sum_list img)) (map (map (map uminus)) lp)))"

definition rec_loss :: "AIRModel \<Rightarrow> error + dual" where
  "rec_loss self = and_then (rec_loss_per_sample self) (\<lambda>ps. Inr (reduce_mean (Vec ps)))"

section \<open>Functions of other modules\<close>

text \<open>
  \<^verbatim>\<open>model.py\<close> calls into \<^verbatim>\<open>prior.py\<close>, into the moving average of
  \<^verbatim>\<open>ops.py\<close> and into TensorFlow. These functions are parameters of the model:
  the Normal-Normal KL divergence of one component (posterior location and scale, prior
  location and scale), the geometric prior (of a success probability that is a value of
  the anneal schedule), the tabular KL divergence, the probability
  table and the log-probability of the step-count posterior (built from the transposed
  continuation probabilities), \<^verbatim>\<open>tf.nn.moments\<close> over all axes,
  \<^verbatim>\<open>make_moving_average(name, value, init, decay)\<close>, and the list
  \<^verbatim>\<open>tf.trainable_variables()\<close>.
\<close>

record variable =
  var_name :: string
  var_shape :: "nat list"
  var_data :: "dual list"

record externals =
  kl_normal :: "dual \<Rightarrow> dual \<Rightarrow> dual \<Rightarrow> dual \<Rightarrow> dual"
  geometric_prior :: "real option \<Rightarrow> nat \<Rightarrow> real list"
  tabular_kl :: "matrix \<Rightarrow> real list \<Rightarrow> matrix"
  nsd_prob :: "matrix \<Rightarrow> matrix"
  nsd_log_prob :: "matrix \<Rightarrow> dual list \<Rightarrow> dual list"
  moments :: "tensor \<Rightarrow> dual \<times> dual"
  make_moving_average :: "string \<Rightarrow> dual \<Rightarrow> real \<Rightarrow> real \<Rightarrow> dual"
  trainable_variables :: "variable list"

section \<open>The arguments of \<^verbatim>\<open>train_step\<close>\<close>

text \<open>A prior with \<^verbatim>\<open>loc\<close> and \<^verbatim>\<open>scale\<close>, both floats.\<close>

record normal_prior =
  prior_loc :: real
  prior_scale :: real

text \<open>The shift prior may lack \<^verbatim>\<open>loc\<close>.\<close>

record shift_prior =
  shift_loc :: "real option"
  shift_scale :: real

text \<open>
  The step-count prior. \<^verbatim>\<open>anneal\<close> is a kind or None; \<^verbatim>\<open>hold_init\<close>,
  \<^verbatim>\<open>steps_div\<close>, \<^verbatim>\<open>weight\<close> and \<^verbatim>\<open>analytic\<close> are read with
  a default and may be absent.
\<close>

record steps_prior =
  nsp_anneal :: "string option"
  nsp_init :: real
  nsp_final :: real
  nsp_steps :: real
  nsp_hold_init :: "real option"
  nsp_steps_div :: "real option"
  nsp_weight :: "real option"
  nsp_analytic :: "bool option"

text \<open>
  The baseline is a module (here: its prediction when called, and the trainable variables
  of its scope) or already a tensor.
\<close>

datatype baseline_arg = Baseline_module tensor "variable list" | Baseline_tensor tensor

record train_args =
  learning_rate :: real
  l2_weight :: real
  what_prior :: "normal_prior option"
  where_scale_prior :: "normal_prior option"
  where_shift_prior :: "shift_prior option"
  num_steps_prior :: "steps_prior option"
  use_prior :: "bool option"
  use_reinforce :: bool
  baseline :: "baseline_arg option"
  decay_rate :: "real option"

text \<open>
  The graph is built once and evaluated in a session. The session holds the variables
  that the graph reads and that \<^verbatim>\<open>model.py\<close> or the optimizer assign:
  \<^verbatim>\<open>use_prior\<close> (flipped by \<^verbatim>\<open>toggle_prior\<close>) and the global step.
\<close>

record session =
  use_prior_var :: bool
  global_step :: nat

text \<open>The session after \<^verbatim>\<open>tf.global_variables_initializer\<close>.\<close>

definition initial_session :: "train_args \<Rightarrow> session" where
  "initial_session a =
     \<lparr>use_prior_var = (case use_prior a of None \<Rightarrow> False | Some b \<Rightarrow> b), global_step = 0\<rparr>"

text \<open>\<^verbatim>\<open>self.use_prior.assign(tf.logical_not(self.use_prior))\<close>.\<close>

definition toggle_prior :: "session \<Rightarrow> session" where
  "toggle_prior s = s\<lparr>use_prior_var := \<not> use_prior_var s\<rparr>"

section \<open>The KL term (\<^verbatim>\<open>AIRModel._prior_loss\<close>)\<close>

text \<open>
  The weight of step \<open>t\<close> in the conditional KL terms (lines 157 to 165): the reversed
  cumulative sum, along the steps, of the posterior step-count probabilities without
  their first bin, or the presence bits.
\<close>

definition prior_step_weight :: "bool \<Rightarrow> matrix \<Rightarrow> matrix \<Rightarrow> matrix" where
  "prior_step_weight analytic num_steps_posterior_prob presence' =
     (if analytic then cumsum_reverse (transpose (map (drop 1) num_steps_posterior_prob))
      else presence')"

text \<open>
  \<^verbatim>\<open>tf.split(x, 4, 2)\<close> followed by \<^verbatim>\<open>tf.concat\<close> of the first and third
  part (scale) or of the second and fourth part (shift), on one vector of the last axis.
\<close>

definition scale_part :: "dual list \<Rightarrow> dual list" where
  "scale_part v = (let k = length v div 4 in take k v @ take k (drop (2 * k) v))"

definition shift_part :: "dual list \<Rightarrow> dual list" where
  "shift_part v = (let k = length v div 4 in take k (drop k v) @ take k (drop (3 * k) v))"

definition splittable :: "tensor3 \<Rightarrow> bool" where
  "splittable t = list_all (list_all (\<lambda>v. length v mod 4 = 0)) t"

text \<open>The success probability of the step-count prior (lines 133 to 142).\<close>

definition steps_prior_success_prob :: "steps_prior \<Rightarrow> nat \<Rightarrow> error + real option" where
  "steps_prior_success_prob nsp step =
     (case nsp_anneal nsp of
        Some kind \<Rightarrow>
          (let hold_init = (case nsp_hold_init nsp of None \<Rightarrow> 0 | Some h \<Rightarrow> h);
               steps_div = (case nsp_steps_div nsp of None \<Rightarrow> 1 | Some d \<Rightarrow> d)
           in anneal_weight (nsp_init nsp) (nsp_final nsp) kind (real step) (nsp_steps nsp)
                hold_init steps_div)
      | None \<Rightarrow> Inr (Some (nsp_init nsp)))"

text \<open>
  The three blocks of \<^verbatim>\<open>_prior_loss\<close> that add to the accumulator: the KL
  divergence of the step count (lines 145 to 155), of the appearance (lines 174 to 186)
  and of the pose (lines 188 to 214).
\<close>

definition add_num_steps_kl ::
  "externals \<Rightarrow> AIRModel \<Rightarrow> steps_prior \<Rightarrow> real option \<Rightarrow> Loss \<Rightarrow> error + Loss" where
  "add_num_steps_kl ext self nsp success_prob loss =
     (let prior = geometric_prior ext success_prob (max_steps self);
          num_steps_posterior_prob = nsd_prob ext (num_steps_distrib self);
          steps_kl = tabular_kl ext num_steps_posterior_prob prior;
          kl_num_steps_per_sample = map sum_list steps_kl;
          kl_num_steps = reduce_mean (Vec kl_num_steps_per_sample);
          weight = (case nsp_weight nsp of None \<Rightarrow> 1 | Some w \<Rightarrow> w)
      in Loss_add loss (Of_expr (Some (Scalar kl_num_steps)))
           (Some (Vec kl_num_steps_per_sample)) weight)"

definition add_what_kl ::
  "externals \<Rightarrow> AIRModel \<Rightarrow> normal_prior option \<Rightarrow> matrix \<Rightarrow> Loss \<Rightarrow> error + Loss" where
  "add_what_kl ext self what_prior' step_weight loss =
     (case what_prior' of
        None \<Rightarrow> Inr loss
      | Some wp \<Rightarrow>
          and_then (t3_map2 (\<lambda>l s. kl_normal ext l s (const (prior_loc wp)) (const (prior_scale wp)))
                      (what_loc self) (what_scale self)) (\<lambda>what_kl.
          and_then (mat_map2 (*) (reduce_sum_last what_kl) step_weight) (\<lambda>what_kl.
          let what_kl_per_sample = reduce_sum0 (batch_size self) what_kl;
              kl_what = reduce_mean (Vec what_kl_per_sample)
          in Loss_add loss (Of_expr (Some (Scalar kl_what))) (Some (Vec what_kl_per_sample)) 1)))"

definition add_where_kl ::
  "externals \<Rightarrow> AIRModel \<Rightarrow> normal_prior option \<Rightarrow> shift_prior option \<Rightarrow> matrix \<Rightarrow> Loss \<Rightarrow>
   error + Loss" where
  "add_where_kl ext self where_scale_prior' where_shift_prior' step_weight loss =
     (case (where_scale_prior', where_shift_prior') of
        (Some sp, Some hp) \<Rightarrow>
          if \<not> (splittable (where_loc self) \<and> splittable (where_scale self)) then Inl ValueError
          else
          let us = map (map scale_part) (where_loc self);
              ss = map (map scale_part) (where_scale self);
              ut = map (map shift_part) (where_loc self);
              st = map (map shift_part) (where_scale self)
          in
          and_then (t3_map2 (\<lambda>l s. kl_normal ext l s (const (prior_loc sp)) (const (prior_scale sp)))
                      us ss) (\<lambda>scale_kl.
          and_then (t3_map2 (\<lambda>l s. kl_normal ext l s
                                (case shift_loc hp of Some m \<Rightarrow> const m | None \<Rightarrow> l)
                                (const (shift_scale hp)))
                      ut st) (\<lambda>shift_kl.
          and_then (t3_map2 (+) scale_kl shift_kl) (\<lambda>both_kl.
          and_then (mat_map2 (*) (reduce_sum_last both_kl) step_weight) (\<lambda>where_kl.
          let where_kl_per_sample = reduce_sum0 (batch_size self) where_kl;
              kl_where = reduce_mean (Vec where_kl_per_sample)
          in Loss_add loss (Of_expr (Some (Scalar kl_where))) (Some (Vec where_kl_per_sample)) 1))))
      | _ \<Rightarrow> Inr loss)"

text \<open>
  \<^verbatim>\<open>_prior_loss\<close>. It returns the accumulator; the step weight it stores in
  \<^verbatim>\<open>self.prior_step_weight\<close> is returned with it. Reading
  \<^verbatim>\<open>num_steps_prior.analytic\<close> fails when the prior is None or has no such field.
\<close>

definition prior_loss ::
  "externals \<Rightarrow> AIRModel \<Rightarrow> normal_prior option \<Rightarrow> normal_prior option \<Rightarrow> shift_prior option \<Rightarrow>
   steps_prior option \<Rightarrow> nat \<Rightarrow> error + (Loss \<times> matrix)" where
  "prior_loss ext self what_prior' where_scale_prior' where_shift_prior' num_steps_prior' step =
     (case num_steps_prior' of
        None \<Rightarrow> Inl AttributeError
      | Some nsp \<Rightarrow>
          and_then (steps_prior_success_prob nsp step) (\<lambda>success_prob.
          and_then (add_num_steps_kl ext self nsp success_prob Loss_init) (\<lambda>loss1.
          case nsp_analytic nsp of
            None \<Rightarrow> Inl AttributeError
          | Some analytic \<Rightarrow>
              (let step_weight = prior_step_weight analytic (nsd_prob ext (num_steps_distrib self))
                                   (presence self)
               in
               and_then (add_what_kl ext self what_prior' step_weight loss1) (\<lambda>loss2.
               and_then (add_where_kl ext self where_scale_prior' where_shift_prior' step_weight loss2)
                 (\<lambda>loss3. Inr (loss3, step_weight)))))))"

section \<open>REINFORCE and the baseline (\<^verbatim>\<open>_reinforce\<close>, \<^verbatim>\<open>_make_baseline_train_step\<close>)\<close>

text \<open>
  What \<^verbatim>\<open>_reinforce\<close> leaves behind: \<^verbatim>\<open>self.baseline\<close> (the
  prediction), \<^verbatim>\<open>self.baseline_vars\<close> (set only for a module),
  \<^verbatim>\<open>self.importance_weight\<close>, the per-sample loss and its mean.
\<close>

record reinforce_out =
  ro_baseline :: "tensor option"
  ro_baseline_vars :: "variable list option"
  ro_importance_weight :: tensor
  ro_loss_per_sample :: tensor
  ro_loss :: dual

definition reinforce ::
  "externals \<Rightarrow> AIRModel \<Rightarrow> baseline_arg option \<Rightarrow> tensor \<Rightarrow> real option \<Rightarrow> error + reinforce_out" where
  "reinforce ext self baseline' importance_weight decay_rate' =
     (let log_prob' = Vec (nsd_log_prob ext (num_steps_distrib self) (num_step_per_sample self));
          baseline_t = (case baseline' of
                          None \<Rightarrow> None
                        | Some (Baseline_module out vars) \<Rightarrow> Some out
                        | Some (Baseline_tensor t) \<Rightarrow> Some t);
          baseline_vars = (case baseline' of
                             Some (Baseline_module out vars) \<Rightarrow> Some vars
                           | _ \<Rightarrow> None)
      in
      and_then (case baseline_t of
                  None \<Rightarrow> Inr importance_weight
                | Some b \<Rightarrow> broadcast (-) importance_weight b) (\<lambda>iw1.
      let iw2 = (case decay_rate' of
                   None \<Rightarrow> iw1
                 | Some decay \<Rightarrow>
                     (let (mean, var) = moments ext iw1;
                          imp_weight_moving_mean =
                            make_moving_average ext ''imp_weight_moving_mean'' mean 0 decay;
                          imp_weight_moving_var =
                            make_moving_average ext ''imp_weight_moving_var'' var 1 decay;
                          factor = dmaximum (dsqrt imp_weight_moving_var) (const 1)
                      in tmap (\<lambda>x. ddivide (x - imp_weight_moving_mean) factor) iw1))
      in
      and_then (broadcast (*) (tmap stop_gradient iw2) log_prob') (\<lambda>reinforce_loss_per_sample.
      Inr \<lparr>ro_baseline = baseline_t, ro_baseline_vars = baseline_vars,
           ro_importance_weight = iw2,
           ro_loss_per_sample = reinforce_loss_per_sample,
           ro_loss = reduce_mean reinforce_loss_per_sample\<rparr>)))"

text \<open>
  An update operation of an optimizer: the learning rate it was made with, the objective
  it minimises and the variables it may change. How the optimizer computes the new
  values is outside the model; \<open>opt\<close> stands for its rule.
\<close>

record update_op =
  op_learning_rate :: real
  op_objective :: tensor
  op_var_list :: "variable list"

definition run_op :: "(update_op \<Rightarrow> variable \<Rightarrow> dual list) \<Rightarrow> update_op \<Rightarrow> variable \<Rightarrow> dual list" where
  "run_op opt u v = (if v \<in> set (op_var_list u) then opt u v else var_data v)"

text \<open>\<^verbatim>\<open>_make_baseline_train_step(opt, loss, baseline, baseline_vars)\<close>, with the
  learning rate of \<open>opt\<close>; it returns the baseline loss and the update.\<close>

definition make_baseline_train_step ::
  "real \<Rightarrow> tensor \<Rightarrow> tensor \<Rightarrow> variable list \<Rightarrow> error + (dual \<times> update_op)" where
  "make_baseline_train_step opt_lr loss baseline' baseline_vars =
     (let baseline_target = tmap stop_gradient loss in
      and_then (broadcast (-) baseline_target baseline') (\<lambda>diff.
      let baseline_loss = const (1 / 2) * reduce_mean (tmap (\<lambda>x. x * x) diff)
      in Inr (baseline_loss,
              \<lparr>op_learning_rate = opt_lr, op_objective = Scalar baseline_loss,
               op_var_list = baseline_vars\<rparr>)))"

section \<open>The training step (\<^verbatim>\<open>AIRModel.train_step\<close>)\<close>

text \<open>\<^verbatim>\<open>tf.nn.l2_loss\<close>: half the sum of squares.\<close>

definition l2_loss :: "variable \<Rightarrow> dual" where
  "l2_loss w = sum_list (map (\<lambda>x. x * x) (var_data w)) * const (1 / 2)"

text \<open>What \<^verbatim>\<open>train_step\<close> stores in the model and returns.\<close>

record train_out =
  r_loss :: Loss
  r_opt_loss :: tensor
  r_rec_loss :: dual
  r_rec_loss_per_sample :: "dual list"
  r_prior_loss :: "Loss option"
  r_prior_weight :: "real option"
  r_reinforce_imp_weight :: "tensor option"
  r_reinforce :: "reinforce_out option"
  r_l2_loss :: "dual option"
  r_model_vars :: "variable list"
  r_baseline_loss :: "dual option"
  r_train_step :: "update_op list"

text \<open>
  Lines 313 to 333: the accumulator \<^verbatim>\<open>loss\<close> with the reconstruction loss and,
  unless \<^verbatim>\<open>use_prior\<close> is None, the KL term weighted by the current value of
  the \<^verbatim>\<open>use_prior\<close> variable. It returns the accumulator, the reconstruction
  loss, its per-sample vector, \<^verbatim>\<open>self.prior_loss\<close> and the weight.
\<close>

definition elbo_loss ::
  "externals \<Rightarrow> AIRModel \<Rightarrow> train_args \<Rightarrow> steps_prior \<Rightarrow> session \<Rightarrow>
   error + (Loss \<times> dual \<times> dual list \<times> Loss option \<times> real option)" where
  "elbo_loss ext self a nsp s =
     and_then (rec_loss_per_sample self) (\<lambda>rec_ps.
     let rec = reduce_mean (Vec rec_ps) in
     and_then (Loss_add Loss_init (Of_expr (Some (Scalar rec))) (Some (Vec rec_ps)) 1) (\<lambda>loss1.
     case use_prior a of
       None \<Rightarrow> Inr (loss1, rec, rec_ps, None, None)
     | Some u \<Rightarrow>
         and_then (prior_loss ext self (what_prior a) (where_scale_prior a) (where_shift_prior a)
                     (Some nsp) (global_step s)) (\<lambda>(pl, step_weight).
         let prior_weight = (if use_prior_var s = True then 1 else 0) in
         and_then (Loss_add loss1 (Of_Loss pl) None prior_weight) (\<lambda>loss2.
         Inr (loss2, rec, rec_ps, Some pl, Some prior_weight)))))"

text \<open>
  Lines 336 to 344. The importance weight starts as the per-sample reconstruction loss;
  when the prior is not analytic, \<^verbatim>\<open>self.prior_loss.per_sample\<close> is added,
  and reading \<^verbatim>\<open>self.prior_loss\<close> fails when it was never set. The stage
  returns the objective, \<^verbatim>\<open>self.reinforce_imp_weight\<close> and what
  \<^verbatim>\<open>_reinforce\<close> left behind.
\<close>

definition reinforce_imp_weight :: "bool \<Rightarrow> dual list \<Rightarrow> Loss option \<Rightarrow> error + tensor" where
  "reinforce_imp_weight analytic rec_ps pl =
     (if \<not> analytic then
        (case pl of
           None \<Rightarrow> Inl AttributeError
         | Some p \<Rightarrow> broadcast (+) (Vec rec_ps) (Loss_per_sample p))
      else Inr (Vec rec_ps))"

definition reinforce_stage ::
  "externals \<Rightarrow> AIRModel \<Rightarrow> train_args \<Rightarrow> bool \<Rightarrow> Loss \<Rightarrow> dual list \<Rightarrow> Loss option \<Rightarrow>
   error + (tensor \<times> tensor option \<times> reinforce_out option)" where
  "reinforce_stage ext self a analytic loss rec_ps pl =
     (let opt_loss = Loss_value loss in
      if use_reinforce a then
        and_then (reinforce_imp_weight analytic rec_ps pl) (\<lambda>imp_w.
        and_then (reinforce ext self (baseline a) imp_w (decay_rate a)) (\<lambda>ro.
        and_then (broadcast (+) opt_loss (Scalar (ro_loss ro))) (\<lambda>opt_loss1.
        Inr (opt_loss1, Some imp_w, Some ro))))
      else Inr (opt_loss, None, None))"

text \<open>Lines 346 and 347: the variables of the main update.\<close>

definition model_vars_of :: "externals \<Rightarrow> reinforce_out option \<Rightarrow> variable list" where
  "model_vars_of ext ro =
     (let baseline_vars = (case ro of
                             None \<Rightarrow> []
                           | Some r \<Rightarrow> (case ro_baseline_vars r of None \<Rightarrow> [] | Some vs \<Rightarrow> vs))
      in filter (\<lambda>v. v \<notin> set baseline_vars) (remdups (trainable_variables ext)))"

text \<open>Lines 349 to 354: the L2 penalty on the matrices among the model variables.\<close>

definition l2_stage :: "train_args \<Rightarrow> variable list \<Rightarrow> tensor \<Rightarrow> error + (tensor \<times> dual option)" where
  "l2_stage a model_vars opt_loss =
     (if 0 < l2_weight a then
        (let weights = filter (\<lambda>w. length (var_shape w) = 2) model_vars;
             l2 = const (l2_weight a) * sum_list (map l2_loss weights)
         in and_then (broadcast (+) opt_loss (Scalar l2)) (\<lambda>opt_loss2. Inr (opt_loss2, Some l2)))
      else Inr (opt_loss, None))"

text \<open>
  Lines 363 to 368: with REINFORCE in use and a baseline given, the baseline update is
  made at ten times the learning rate and grouped with the main update. Reading
  \<^verbatim>\<open>self.baseline_vars\<close> fails when the baseline was given as a tensor.
\<close>

definition baseline_stage ::
  "AIRModel \<Rightarrow> train_args \<Rightarrow> update_op \<Rightarrow> tensor option \<Rightarrow> reinforce_out option \<Rightarrow>
   error + (update_op list \<times> dual option)" where
  "baseline_stage self a main_step imp_w ro =
     (let self_use_reinforce = (use_reinforce a \<and> discrete_steps self) in
      if self_use_reinforce \<and> baseline a \<noteq> None then
        (case (imp_w, ro) of
           (Some w, Some r) \<Rightarrow>
             (case (ro_baseline r, ro_baseline_vars r) of
                (Some b, Some vs) \<Rightarrow>
                  and_then (make_baseline_train_step (10 * learning_rate a) w b vs)
                    (\<lambda>(bl, bstep). Inr ([main_step, bstep], Some bl))
              | _ \<Rightarrow> Inl AttributeError)
         | _ \<Rightarrow> Inl AttributeError)
      else Inr ([main_step], None))"

text \<open>
  \<^verbatim>\<open>train_step\<close>, evaluated in a session. Line 295 stores the default of
  \<^verbatim>\<open>analytic\<close> into the prior, which fails on None.
\<close>

definition train_step ::
  "externals \<Rightarrow> AIRModel \<Rightarrow> train_args \<Rightarrow> session \<Rightarrow> error + train_out" where
  "train_step ext self a s =
     (case num_steps_prior a of
        None \<Rightarrow> Inl TypeError
      | Some nsp0 \<Rightarrow>
          (let analytic = (case nsp_analytic nsp0 of None \<Rightarrow> True | Some b \<Rightarrow> b);
               nsp = nsp0\<lparr>nsp_analytic := Some analytic\<rparr>
           in
           and_then (elbo_loss ext self a nsp s) (\<lambda>(loss, rec, rec_ps, pl, pw).
           and_then (reinforce_stage ext self a analytic loss rec_ps pl) (\<lambda>(opt_loss1, imp_w, ro).
           let model_vars = model_vars_of ext ro in
           and_then (l2_stage a model_vars opt_loss1) (\<lambda>(opt_loss2, l2).
           let main_step = \<lparr>op_learning_rate = learning_rate a, op_objective = opt_loss2,
                            op_var_list = model_vars\<rparr>
           in
           and_then (baseline_stage self a main_step imp_w ro) (\<lambda>(steps, bl).
           Inr \<lparr>r_loss = loss, r_opt_loss = opt_loss2, r_rec_loss = rec,
                r_rec_loss_per_sample = rec_ps, r_prior_loss = pl, r_prior_weight = pw,
                r_reinforce_imp_weight = imp_w, r_reinforce = ro, r_l2_loss = l2,
                r_model_vars = model_vars, r_baseline_loss = bl, r_train_step = steps\<rparr>))))))"

section \<open>A small instance\<close>

text \<open>
  Two samples, two steps, images of one row and two columns, one appearance latent. The
  external functions are stand-ins chosen for easy arithmetic: the step-count posterior
  is a fixed table, the tabular KL weighs its bins by 0, 4 and 8, the log-probabilities
  of the realised counts are fixed, the moving average is the first update from its
  initial value.
\<close>

definition example_ext :: externals where
  "example_ext =
     \<lparr>kl_normal = (\<lambda>l s pl ps. (l - pl) * (l - pl) + s),
      geometric_prior = (\<lambda>p n. replicate (Suc n) (case p of None \<Rightarrow> 0 | Some q \<Rightarrow> q)),
      tabular_kl = (\<lambda>q p. map (\<lambda>row. map2 (*) row [const 0, const 4, const 8]) q),
      nsd_prob = (\<lambda>m. [[const (1 / 2), const (1 / 4), const (1 / 4)],
                        [const (1 / 4), const (1 / 4), const (1 / 2)]]),
      nsd_log_prob = (\<lambda>m k. [Dual (- 1) 1, Dual (- 2) 1]),
      moments = (\<lambda>t. (reduce_mean t, const 4)),
      make_moving_average = (\<lambda>name v init decay. const (decay * init) + const (1 - decay) * v),
      trainable_variables =
        [\<lparr>var_name = ''w'', var_shape = [1, 2], var_data = [Dual 1 1, Dual 2 0]\<rparr>,
         \<lparr>var_name = ''b'', var_shape = [2], var_data = [Dual 3 0, Dual 4 0]\<rparr>,
         \<lparr>var_name = ''baseline/w'', var_shape = [1, 1], var_data = [Dual 5 0]\<rparr>]\<rparr>"

definition example_cell :: cell_outputs where
  "example_cell =
     \<lparr>c_what_loc = [[[Dual 1 0], [Dual 0 0]], [[Dual 2 0], [Dual 1 0]]],
      c_what_scale = [[[Dual 1 0], [Dual 1 0]], [[Dual 1 0], [Dual 1 0]]],
      c_where_loc = [[[Dual 1 0, Dual 0 0, Dual 1 0, Dual 0 0], [Dual 1 0, Dual 0 0, Dual 1 0, Dual 0 0]],
                     [[Dual 1 0, Dual 0 0, Dual 1 0, Dual 0 0], [Dual 1 0, Dual 0 0, Dual 1 0, Dual 0 0]]],
      c_where_scale = [[[Dual 1 0, Dual 1 0, Dual 1 0, Dual 1 0], [Dual 1 0, Dual 1 0, Dual 1 0, Dual 1 0]],
                       [[Dual 1 0, Dual 1 0, Dual 1 0, Dual 1 0], [Dual 1 0, Dual 1 0, Dual 1 0, Dual 1 0]]],
      c_presence_prob = [[const (1 / 2), const (3 / 4)], [const (1 / 2), const (2 / 3)]],
      c_presence = [[const 1, const 1], [const 0, const 1]],
      c_canvas = [[[[Dual 0 0, Dual 0 0]], [[Dual 0 0, Dual 0 0]]],
                  [[[Dual 1 0, Dual 2 0]], [[Dual 0 1, Dual 1 0]]]]\<rparr>"

definition example_obs :: "real list list list" where
  "example_obs = [[[1, 2]], [[1, 1]]]"

definition example_model :: AIRModel where
  "example_model =
     (case build example_cell example_obs 2 1 True 1 of Inr m \<Rightarrow> m | Inl e \<Rightarrow> undefined)"

definition example_steps_prior :: steps_prior where
  "example_steps_prior =
     \<lparr>nsp_anneal = None, nsp_init = 1 / 2, nsp_final = 1 / 10, nsp_steps = 100,
      nsp_hold_init = None, nsp_steps_div = None, nsp_weight = None, nsp_analytic = None\<rparr>"

definition example_args :: train_args where
  "example_args =
     \<lparr>learning_rate = 1 / 1000, l2_weight = 0, what_prior = None, where_scale_prior = None,
      where_shift_prior = None, num_steps_prior = Some example_steps_prior,
      use_prior = Some True, use_reinforce = True, baseline = None, decay_rate = None\<rparr>"

section \<open>Evaluation helpers\<close>

lemma dual_simps:
  "Dual a b + Dual c d = Dual (a + c) (b + d)"
  "Dual a b - Dual c d = Dual (a - c) (b - d)"
  "Dual a b * Dual c d = Dual (a * c) (a * d + b * c)"
  "- Dual a b = Dual (- a) (- b)"
  "(0::dual) = Dual 0 0"
  "(1::dual) = Dual 1 0"
  by (simp_all add: plus_dual_def minus_dual_def times_dual_def uminus_dual_def zero_dual_def one_dual_def)

lemma and_then_Inr:
  "and_then m f = Inr y \<longleftrightarrow> (\<exists>x. m = Inr x \<and> f x = Inr y)"
  by (cases m) (simp_all add: and_then_def)

lemma and_then_simps:
  "and_then (Inr x) f = f x"
  "and_then (Inl e) f = Inl e"
  by (simp_all add: and_then_def)

section \<open>The step weight of the conditional KL terms\<close>

lemma cumsum_reverse_Nil: "cumsum_reverse m = [] \<longleftrightarrow> m = []"
  by (cases m) (simp_all split: list.splits)

lemma cumsum_reverse_rows:
  "list_all (\<lambda>r. length r = B) m \<Longrightarrow> list_all (\<lambda>r. length r = B) (cumsum_reverse m)"
  by (induction m) (auto split: list.splits)

lemma cumsum_reverse_nth:
  "list_all (\<lambda>r. length r = B) m \<Longrightarrow> t < length m \<Longrightarrow> b < B \<Longrightarrow>
   cumsum_reverse m ! t ! b = sum_list (map (\<lambda>row. row ! b) (drop t m))"
proof (induction m arbitrary: t)
  case Nil
  then show ?case by simp
next
  case (Cons r rs)
  have rows: "list_all (\<lambda>r. length r = B) (cumsum_reverse rs)"
    using Cons.prems(1) by (simp add: cumsum_reverse_rows)
  show ?case
  proof (cases "cumsum_reverse rs")
    case Nil
    then have "rs = []" by (simp add: cumsum_reverse_Nil)
    with Cons.prems show ?thesis by simp
  next
    case (Cons s ss)
    then have rs: "rs \<noteq> []" by auto
    have s0: "s = cumsum_reverse rs ! 0" using Cons by simp
    have ls: "length s = B" using rows Cons by simp
    show ?thesis
    proof (cases t)
      case 0
      have "s ! b = sum_list (map (\<lambda>row. row ! b) (drop 0 rs))"
        unfolding s0 using Cons.IH[of 0] Cons.prems rs by simp
      then show ?thesis
        using 0 Cons Cons.prems ls by simp
    next
      case (Suc t')
      have "cumsum_reverse rs ! t' ! b = sum_list (map (\<lambda>row. row ! b) (drop t' rs))"
        using Cons.IH[of t'] Cons.prems Suc by simp
      then show ?thesis using Suc Cons by simp
    qed
  qed
qed

lemma foldr_max_length_if:
  "list_all (\<lambda>r. length r = T) m \<Longrightarrow>
   foldr (\<lambda>xs. max (length xs)) m 0 = (if m = [] then 0 else T)"
  by (induction m) auto

lemma foldr_max_length:
  "m \<noteq> [] \<Longrightarrow> list_all (\<lambda>r. length r = T) m \<Longrightarrow> foldr (\<lambda>xs. max (length xs)) m 0 = T"
  by (simp add: foldr_max_length_if)

lemma transpose_rect:
  assumes "m \<noteq> []" "list_all (\<lambda>r. length r = T) m"
  shows "transpose m = map (\<lambda>s. map (\<lambda>row. row ! s) m) [0..<T]"
proof (rule nth_equalityI)
  show len: "length (transpose m) = length (map (\<lambda>s. map (\<lambda>row. row ! s) m) [0..<T])"
    using assms by (simp add: length_transpose foldr_max_length)
  fix i assume "i < length (transpose m)"
  then have i: "i < T" and i': "i < length (transpose m)" using len by simp_all
  have "filter (\<lambda>ys. i < length ys) m = m"
    using assms(2) i by (auto simp add: list_all_iff filter_id_conv)
  then show "transpose m ! i = map (\<lambda>s. map (\<lambda>row. row ! s) m) [0..<T] ! i"
    using nth_transpose[OF i'] i by simp
qed

lemma prior_step_weight_analytic:
  assumes "P \<noteq> []" "list_all (\<lambda>r. length r = Suc T) P" "t < T" "b < length P"
  shows "prior_step_weight True P pres ! t ! b = sum_list (drop (Suc t) (P ! b))"
proof -
  let ?M = "map (drop 1) P"
  have M: "?M \<noteq> []" "list_all (\<lambda>r. length r = T) ?M"
    using assms by (auto simp add: list_all_iff)
  have tr: "transpose ?M = map (\<lambda>s. map (\<lambda>row. row ! s) ?M) [0..<T]"
    by (rule transpose_rect[OF M])
  have rows: "list_all (\<lambda>r. length r = length P) (transpose ?M)"
    unfolding tr by (simp add: list_all_iff)
  have lt: "t < length (transpose ?M)" unfolding tr using assms by simp
  have Pb: "length (P ! b) = Suc T" using assms by (simp add: list_all_length)
  have "prior_step_weight True P pres ! t ! b
        = sum_list (map (\<lambda>row. row ! b) (drop t (transpose ?M)))"
    unfolding prior_step_weight_def using cumsum_reverse_nth[OF rows lt assms(4)] by simp
  also have "\<dots> = sum_list (map (\<lambda>s. drop 1 (P ! b) ! s) [t..<T])"
    unfolding tr using assms by (simp add: drop_map comp_def)
  also have "\<dots> = sum_list (drop t (drop 1 (P ! b)))"
  proof -
    have "map (\<lambda>s. drop 1 (P ! b) ! s) [t..<T] = drop t (drop 1 (P ! b))"
      using Pb assms(3) by (intro nth_equalityI) (simp_all add: add.commute)
    then show ?thesis by simp
  qed
  finally show ?thesis by simp
qed


lemma prior_loss_step_weight:
  assumes "prior_loss ext self wp sp hp (Some nsp) step = Inr (l, w)"
  shows "\<exists>an. nsp_analytic nsp = Some an \<and>
              w = prior_step_weight an (nsd_prob ext (num_steps_distrib self)) (presence self)"
proof -
  from assms obtain p l1 where
    l1: "(case nsp_analytic nsp of
            None \<Rightarrow> Inl AttributeError
          | Some analytic \<Rightarrow>
              (let step_weight = prior_step_weight analytic (nsd_prob ext (num_steps_distrib self))
                                   (presence self)
               in
               and_then (add_what_kl ext self wp step_weight l1) (\<lambda>loss2.
               and_then (add_where_kl ext self sp hp step_weight loss2)
                 (\<lambda>loss3. Inr (loss3, step_weight))))) = Inr (l, w)"
    unfolding prior_loss_def by (auto simp add: and_then_Inr)
  then show ?thesis
    by (cases "nsp_analytic nsp") (auto simp add: Let_def and_then_Inr)
qed

lemma example_model_eq:
  "example_model =
     \<lparr>obs = [[[1, 2]], [[1, 1]]], max_steps = 2, batch_size = 2, output_std = 1,
      discrete_steps = True, output_multiplier = 1,
      what_loc = c_what_loc example_cell, what_scale = c_what_scale example_cell,
      where_loc = c_where_loc example_cell, where_scale = c_where_scale example_cell,
      presence_prob = [[Dual (1 / 2) 0, Dual (3 / 4) 0], [Dual (1 / 2) 0, Dual (2 / 3) 0]],
      presence = [[Dual 1 0, Dual 1 0], [Dual 0 0, Dual 1 0]],
      canvas = [[[[Dual 0 0, Dual 0 0]], [[Dual 0 0, Dual 0 0]]],
                [[[Dual 1 0, Dual 2 0]], [[Dual 0 1, Dual 1 0]]]],
      final_canvas = [[[Dual 1 0, Dual 2 0]], [[Dual 0 1, Dual 1 0]]],
      output_distrib = \<lparr>n_loc = [[[Dual 1 0, Dual 2 0]], [[Dual 0 1, Dual 1 0]]], n_scale = 1\<rparr>,
      num_steps_distrib = [[Dual (1 / 2) 0, Dual (1 / 2) 0], [Dual (3 / 4) 0, Dual (2 / 3) 0]],
      num_step_per_sample = [Dual 1 0, Dual 2 0]\<rparr>"
  by (simp add: example_model_def build_def example_cell_def example_obs_def Let_def
      reduce_sum0_def const_def dual_simps)

lemma example_prior_loss:
  "prior_loss example_ext example_model None None None
      (Some (example_steps_prior\<lparr>nsp_analytic := Some an\<rparr>)) n =
   Inr (\<lparr>priv_value = Some (Scalar (Dual 4 0)), priv_per_sample = Some (Vec [Dual 3 0, Dual 5 0])\<rparr>,
        if an then [[Dual (1 / 2) 0, Dual (3 / 4) 0], [Dual (1 / 4) 0, Dual (1 / 2) 0]]
        else [[Dual 1 0, Dual 1 0], [Dual 0 0, Dual 1 0]])"
  by (simp add: prior_loss_def add_num_steps_kl_def add_what_kl_def add_where_kl_def
      example_model_eq example_ext_def example_steps_prior_def
      steps_prior_success_prob_def Let_def and_then_simps Loss_add_def Loss_update_def Loss_init_def
      prior_step_weight_def const_def dual_simps)


text \<open>
  C3. Whenever \<^verbatim>\<open>_prior_loss\<close> succeeds, the step weight it stores is, for a
  prior that is not analytic, the presence bits of the trajectory; for an analytic prior
  and a posterior table \<open>P\<close> with \<open>max_steps + 1\<close> bins per sample, the weight of step
  \<open>t\<close> for sample \<open>b\<close> is the sum of the bins of \<open>P ! b\<close> from \<open>t + 1\<close> upward: the
  posterior probability of at least \<open>t + 1\<close> objects.
\<close>

theorem prior_step_weight_modes:
  assumes "prior_loss ext self wp sp hp (Some nsp) step = Inr (l, w)"
  shows "(nsp_analytic nsp = Some False \<longrightarrow> w = presence self) \<and>
         (nsp_analytic nsp = Some True \<and> P = nsd_prob ext (num_steps_distrib self) \<and> P \<noteq> [] \<and>
          list_all (\<lambda>r. length r = Suc (max_steps self)) P \<and> t < max_steps self \<and> b < length P
          \<longrightarrow> w ! t ! b = sum_list (drop (Suc t) (P ! b)))"
  using prior_loss_step_weight[OF assms]
  by (auto simp add: prior_step_weight_analytic) (simp add: prior_step_weight_def)

theorem prior_step_weight_modes_witness:
  "prior_loss example_ext example_model None None None
      (Some (example_steps_prior\<lparr>nsp_analytic := Some True\<rparr>)) 0 =
     Inr (\<lparr>priv_value = Some (Scalar (Dual 4 0)), priv_per_sample = Some (Vec [Dual 3 0, Dual 5 0])\<rparr>,
          [[Dual (1 / 2) 0, Dual (3 / 4) 0], [Dual (1 / 4) 0, Dual (1 / 2) 0]])
   \<and> [[Dual (1 / 2) 0, Dual (3 / 4) 0], [Dual (1 / 4) 0, Dual (1 / 2) 0]] ! 0 ! 1 =
       sum_list (drop (Suc 0) ([[Dual (1 / 2) 0, Dual (1 / 4) 0, Dual (1 / 4) 0],
                                [Dual (1 / 4) 0, Dual (1 / 4) 0, Dual (1 / 2) 0]] ! 1))
   \<and> prior_loss example_ext example_model None None None
      (Some (example_steps_prior\<lparr>nsp_analytic := Some False\<rparr>)) 0 =
     Inr (\<lparr>priv_value = Some (Scalar (Dual 4 0)), priv_per_sample = Some (Vec [Dual 3 0, Dual 5 0])\<rparr>,
          presence example_model)"
proof -
  let ?P = "[[Dual (1 / 2) 0, Dual (1 / 4) 0, Dual (1 / 4) 0],
             [Dual (1 / 4) 0, Dual (1 / 4) 0, Dual (1 / 2) 0]]"
  let ?W = "[[Dual (1 / 2) 0, Dual (3 / 4) 0], [Dual (1 / 4) 0, Dual (1 / 2) 0]]"
  let ?L = "\<lparr>priv_value = Some (Scalar (Dual 4 0)), priv_per_sample = Some (Vec [Dual 3 0, Dual 5 0])\<rparr>"
  have t: "prior_loss example_ext example_model None None None
      (Some (example_steps_prior\<lparr>nsp_analytic := Some True\<rparr>)) 0 = Inr (?L, ?W)"
    by (simp add: example_prior_loss)
  have f: "prior_loss example_ext example_model None None None
      (Some (example_steps_prior\<lparr>nsp_analytic := Some False\<rparr>)) 0 =
      Inr (?L, [[Dual 1 0, Dual 1 0], [Dual 0 0, Dual 1 0]])"
    by (simp add: example_prior_loss)
  have P: "nsd_prob example_ext (num_steps_distrib example_model) = ?P"
    by (simp add: example_ext_def const_def)
  have ms: "max_steps example_model = 2"
    by (simp add: example_model_eq)
  have pre: "nsp_analytic (example_steps_prior\<lparr>nsp_analytic := Some True\<rparr>) = Some True \<and>
      ?P = nsd_prob example_ext (num_steps_distrib example_model) \<and> ?P \<noteq> [] \<and>
      list_all (\<lambda>r. length r = Suc (max_steps example_model)) ?P \<and>
      0 < max_steps example_model \<and> 1 < length ?P"
    by (simp add: ms P)
  have a: "?W ! 0 ! 1 = sum_list (drop (Suc 0) (?P ! 1))"
    using prior_step_weight_modes[OF t, of ?P 0 1] pre by blast
  have pre2: "nsp_analytic (example_steps_prior\<lparr>nsp_analytic := Some False\<rparr>) = Some False"
    by simp
  have b: "[[Dual 1 0, Dual 1 0], [Dual 0 0, Dual 1 0]] = presence example_model"
    using prior_step_weight_modes[OF f, of "[]" 0 0] pre2 by blast
  show ?thesis
    using t a f unfolding b by blast
qed

section \<open>Properties of the accumulator and of the schedule\<close>

lemma get_shape_scale: "get_shape (scale w t) = get_shape t"
  by (cases t) simp_all

lemma broadcast_same_shape:
  "get_shape a = get_shape b \<Longrightarrow> \<exists>s. broadcast f a b = Inr s \<and> get_shape s = get_shape a"
  by (cases a; cases b) simp_all

lemma Loss_update_None:
  "getattr self name = None \<Longrightarrow> Loss_update self name (Some e) w = Inr (setattr self name (Some (scale w e)))"
  by (simp add: Loss_update_def)

lemma Loss_update_mismatch:
  "getattr self name = Some v \<Longrightarrow> get_shape e \<noteq> get_shape v \<Longrightarrow>
   Loss_update self name (Some e) w = Inl AssertionError"
  by (auto simp add: Loss_update_def Let_def get_shape_scale)

lemma Loss_update_error:
  "getattr self name = Some v \<Longrightarrow> Loss_update self name (Some e) w = Inl err \<Longrightarrow> err = AssertionError"
  using broadcast_same_shape[of v "scale w e" "(+)"]
  by (auto simp add: Loss_update_def Let_def get_shape_scale split: if_splits sum.splits)

text \<open>
  C8. An accumulator that already holds both aggregates refuses a component whose
  per-sample vector has another shape than the held one: the assertion of
  \<^verbatim>\<open>_update\<close> fails (the spec's ShapeMismatch), whether the component is
  given as expressions or as another accumulator. With matching shapes (a scalar
  value and per-sample vectors of one length) the addition succeeds, and each aggregate
  becomes the held aggregate plus the weight times the component.
\<close>

theorem Loss_add_shapes:
  "(priv_value self = Some v \<and> priv_per_sample self = Some p \<and> get_shape ps \<noteq> get_shape p
      \<longrightarrow> Loss_add self (Of_expr (Some lv)) (Some ps) w = Inl AssertionError
        \<and> Loss_add self (Of_Loss \<lparr>priv_value = Some lv, priv_per_sample = Some ps\<rparr>) arg w = Inl AssertionError)
   \<and> (priv_value self = Some (Scalar a) \<and> priv_per_sample self = Some (Vec xs) \<and> length ys = length xs
      \<longrightarrow> Loss_add self (Of_expr (Some (Scalar b))) (Some (Vec ys)) w =
            Inr (self\<lparr>priv_value := Some (Scalar (a + b * const w)),
                      priv_per_sample := Some (Vec (map2 (\<lambda>x y. x + y * const w) xs ys))\<rparr>))"
proof (intro conjI impI)
  assume h: "priv_value self = Some v \<and> priv_per_sample self = Some p \<and> get_shape ps \<noteq> get_shape p"
  have upd: "Loss_update self Attr_value (Some lv) w = Inl AssertionError \<or>
     (\<exists>self1. Loss_update self Attr_value (Some lv) w = Inr self1 \<and> priv_per_sample self1 = Some p)"
  proof (cases "get_shape v = get_shape (scale w lv)")
    case True
    then obtain s where "broadcast (+) v (scale w lv) = Inr s"
      using broadcast_same_shape[of v "scale w lv" "(+)"] by blast
    then show ?thesis using h True by (simp add: Loss_update_def Let_def)
  next
    case False
    then show ?thesis using h by (simp add: Loss_update_def Let_def)
  qed
  have snd: "\<And>self1. priv_per_sample self1 = Some p \<Longrightarrow>
      Loss_update self1 Attr_per_sample (Some ps) w = Inl AssertionError"
    using h by (intro Loss_update_mismatch[where v=p]) simp_all
  show "Loss_add self (Of_expr (Some lv)) (Some ps) w = Inl AssertionError"
    using upd snd by (auto simp add: Loss_add_def)
  show "Loss_add self (Of_Loss \<lparr>priv_value = Some lv, priv_per_sample = Some ps\<rparr>) arg w = Inl AssertionError"
    using upd snd by (auto simp add: Loss_add_def)
next
  assume h: "priv_value self = Some (Scalar a) \<and> priv_per_sample self = Some (Vec xs) \<and> length ys = length xs"
  have map_eq: "map2 (+) xs (map (\<lambda>x. x * const w) ys) = map2 (\<lambda>x y. x + y * const w) xs ys"
    by (simp add: zip_map2 case_prod_unfold comp_def)
  show "Loss_add self (Of_expr (Some (Scalar b))) (Some (Vec ys)) w =
            Inr (self\<lparr>priv_value := Some (Scalar (a + b * const w)),
                      priv_per_sample := Some (Vec (map2 (\<lambda>x y. x + y * const w) xs ys))\<rparr>)"
    using h by (simp add: Loss_add_def Loss_update_def Let_def map_eq)
qed

text \<open>
  C7. The schedule fails exactly when the kind is neither \<^verbatim>\<open>'exp'\<close> (the
  exponential kind) nor \<^verbatim>\<open>'linear'\<close>; the failure is always
  \<^verbatim>\<open>NotImplementedError\<close> (the spec's UnsupportedScheduleKind), and both
  supported kinds return a value.
\<close>

theorem anneal_weight_kind:
  "(anneal_weight i f k s T h d = Inl NotImplementedError) = (k \<noteq> ''exp'' \<and> k \<noteq> ''linear'')
   \<and> (\<exists>v. anneal_weight i f k s T h d = Inr v) = (k = ''exp'' \<or> k = ''linear'')
   \<and> (\<forall>e. anneal_weight i f k s T h d = Inl e \<longrightarrow> e = NotImplementedError)"
  by (auto simp add: anneal_weight_def Let_def)

theorem anneal_weight_kind_witness:
  "anneal_weight 1 0 ''cosine'' 5 100 0 1 = Inl NotImplementedError
   \<and> (\<exists>v. anneal_weight 1 0 ''linear'' 5 100 0 1 = Inr v)
   \<and> (\<exists>v. anneal_weight 1 (1/2) ''exp'' 5 100 0 1 = Inr v)"
  using anneal_weight_kind[of 1 0 "''cosine''" 5 100 0 1]
    anneal_weight_kind[of 1 0 "''linear''" 5 100 0 1]
    anneal_weight_kind[of 1 "1/2" "''exp''" 5 100 0 1]
  by simp

text \<open>
  C6, as amended. For the linear kind and a nonzero \<open>total_steps\<close> the schedule returns
  \<open>final + (initial - final) * (1 - e / total_steps)\<close> clamped below by \<open>final\<close>,
  where \<open>e = max (step - hold_for) 0\<close> is the effective step; the result is never below
  \<open>final\<close>. With \<open>final \<le> initial\<close> and a nonzero \<open>total_steps\<close> it returns
  \<open>initial\<close> while the effective step is 0 (\<open>step \<le> hold_for\<close>); it returns
  \<open>final\<close> when the effective step equals a nonzero \<open>total_steps\<close>; and with
  \<open>final \<le> initial\<close> and \<open>0 < total_steps\<close> it stays at \<open>final\<close> for every
  effective step from \<open>total_steps\<close> on. Nothing is stated for \<open>total_steps = 0\<close>,
  where line 119 divides by zero.
\<close>

theorem anneal_weight_linear:
  "(T \<noteq> 0 \<longrightarrow>
      anneal_weight i f ''linear'' s T h d
        = Inr (Some (max f (f + (i - f) * (1 - max (s - h) 0 / T)))))
   \<and> (T \<noteq> 0 \<longrightarrow> (\<exists>v. anneal_weight i f ''linear'' s T h d = Inr (Some v) \<and> f \<le> v))
   \<and> (T \<noteq> 0 \<and> f \<le> i \<and> s \<le> h \<longrightarrow> anneal_weight i f ''linear'' s T h d = Inr (Some i))
   \<and> (T \<noteq> 0 \<and> max (s - h) 0 = T \<longrightarrow> anneal_weight i f ''linear'' s T h d = Inr (Some f))
   \<and> (f \<le> i \<and> 0 < T \<and> T \<le> s - h \<longrightarrow> anneal_weight i f ''linear'' s T h d = Inr (Some f))"
proof -
  have form: "anneal_weight i f ''linear'' s T h d
                = Inr (Some (max f (f + (i - f) * (1 - max (s - h) 0 / T))))" if "T \<noteq> 0"
    using that by (simp add: anneal_weight_def fdiv_def Let_def)
  have c2: "T \<noteq> 0 \<longrightarrow> (\<exists>v. anneal_weight i f ''linear'' s T h d = Inr (Some v) \<and> f \<le> v)"
    by (simp add: form)
  have c3: "T \<noteq> 0 \<and> f \<le> i \<and> s \<le> h \<longrightarrow> anneal_weight i f ''linear'' s T h d = Inr (Some i)"
    by (simp add: form max_def)
  have c4: "T \<noteq> 0 \<and> max (s - h) 0 = T \<longrightarrow> anneal_weight i f ''linear'' s T h d = Inr (Some f)"
    by (simp add: form)
  have c5: "f \<le> i \<and> 0 < T \<and> T \<le> s - h \<longrightarrow> anneal_weight i f ''linear'' s T h d = Inr (Some f)"
  proof
    assume a: "f \<le> i \<and> 0 < T \<and> T \<le> s - h"
    then have e: "max (s - h) 0 = s - h" by simp
    from a have T: "T \<noteq> 0" by simp
    from a have "1 \<le> (s - h) / T" by (simp add: le_divide_eq)
    then have "1 - (s - h) / T \<le> 0" by simp
    with a have "(i - f) * (1 - (s - h) / T) \<le> 0"
      by (simp add: mult_nonneg_nonpos)
    then have "max f (f + (i - f) * (1 - (s - h) / T)) = f"
      by simp
    then show "anneal_weight i f ''linear'' s T h d = Inr (Some f)"
      unfolding form[OF T] e by simp
  qed
  show ?thesis using form c2 c3 c4 c5 by simp
qed

text \<open>
  C6 as stated fails: with a hold period of 10 the schedule from 1 to 0 over 100 steps
  is at 1/10, not at \<open>final\<close>, when the step equals \<open>total_steps\<close>; and a schedule
  whose initial value 0 lies below its final value 1 returns 1, not \<open>initial\<close>, at step 0.
\<close>

theorem anneal_weight_linear_counterexample:
  "anneal_weight 1 0 ''linear'' 100 100 10 1 = Inr (Some (1 / 10))
   \<and> anneal_weight 1 0 ''linear'' 100 100 10 1 \<noteq> Inr (Some 0)
   \<and> anneal_weight 0 1 ''linear'' 0 100 0 1 = Inr (Some 1)
   \<and> anneal_weight 0 1 ''linear'' 0 100 0 1 \<noteq> Inr (Some 0)"
  by (simp add: anneal_weight_def fdiv_def Let_def)

theorem anneal_weight_linear_witness:
  "anneal_weight 1 0 ''linear'' 0 100 0 1 = Inr (Some 1)
   \<and> anneal_weight 1 0 ''linear'' 100 100 0 1 = Inr (Some 0)
   \<and> anneal_weight 1 0 ''linear'' 200 100 0 1 = Inr (Some 0)
   \<and> anneal_weight 1 0 ''linear'' 50 100 0 1 = Inr (Some (1 / 2))
   \<and> anneal_weight 1 0 ''linear'' 25 100 5 1 = Inr (Some (4 / 5))"
  using anneal_weight_linear[of 100 1 0 0 0 1] anneal_weight_linear[of 100 1 0 100 0 1]
    anneal_weight_linear[of 100 1 0 200 0 1] anneal_weight_linear[of 100 1 0 50 0 1]
    anneal_weight_linear[of 100 1 0 25 5 1]
  by simp

theorem Loss_add_shapes_witness:
  "Loss_add \<lparr>priv_value = Some (Scalar (Dual 1 0)), priv_per_sample = Some (Vec [Dual 1 0, Dual 2 0])\<rparr>
      (Of_expr (Some (Scalar (Dual 3 0)))) (Some (Vec [Dual 1 0, Dual 2 0, Dual 3 0])) 1
     = Inl AssertionError
   \<and> Loss_add \<lparr>priv_value = Some (Scalar (Dual 1 0)), priv_per_sample = Some (Vec [Dual 1 0, Dual 2 0])\<rparr>
      (Of_expr (Some (Scalar (Dual 3 0)))) (Some (Vec [Dual 5 0, Dual 7 0])) 2
     = Inr \<lparr>priv_value = Some (Scalar (Dual 7 0)), priv_per_sample = Some (Vec [Dual 11 0, Dual 16 0])\<rparr>"
  using Loss_add_shapes[of
      "\<lparr>priv_value = Some (Scalar (Dual 1 0)), priv_per_sample = Some (Vec [Dual 1 0, Dual 2 0])\<rparr>"
      "Scalar (Dual 1 0)" "Vec [Dual 1 0, Dual 2 0]" "Vec [Dual 1 0, Dual 2 0, Dual 3 0]"
      "Scalar (Dual 3 0)" 1 undefined "Dual 1 0" "[Dual 1 0, Dual 2 0]" "[Dual 5 0, Dual 7 0]" "Dual 3 0"]
    Loss_add_shapes[of
      "\<lparr>priv_value = Some (Scalar (Dual 1 0)), priv_per_sample = Some (Vec [Dual 1 0, Dual 2 0])\<rparr>"
      "Scalar (Dual 1 0)" "Vec [Dual 1 0, Dual 2 0]" "Vec [Dual 1 0, Dual 2 0, Dual 3 0]"
      "Scalar (Dual 3 0)" 2 undefined "Dual 1 0" "[Dual 1 0, Dual 2 0]" "[Dual 5 0, Dual 7 0]" "Dual 3 0"]
  by (simp add: const_def plus_dual_def times_dual_def)

section \<open>Evaluating the instance\<close>

lemma const_simps: "const 1 = 1" "const 0 = 0"
  by (simp_all add: const_def one_dual_def zero_dual_def)

lemma example_rec:
  "rec_loss_per_sample example_model = Inr [Dual (ln (2 * pi)) 0, Dual (1 / 2 + ln (2 * pi)) (- 1)]"
  by (simp add: example_model_eq Let_def
      rec_loss_per_sample_def log_prob_def and_then_def normal_log_prob_def const_def dual_simps)

lemma example_elbo:
  assumes "use_prior a = Some u" "what_prior a = None" "where_scale_prior a = None"
    "where_shift_prior a = None"
  shows "elbo_loss example_ext example_model a (example_steps_prior\<lparr>nsp_analytic := Some an\<rparr>) s =
   Inr (\<lparr>priv_value = Some (Scalar (if use_prior_var s then Dual (17 / 4 + ln (2 * pi)) (- 1 / 2)
                                       else Dual (1 / 4 + ln (2 * pi)) (- 1 / 2))),
          priv_per_sample = Some (Vec (if use_prior_var s
               then [Dual (3 + ln (2 * pi)) 0, Dual (11 / 2 + ln (2 * pi)) (- 1)]
               else [Dual (ln (2 * pi)) 0, Dual (1 / 2 + ln (2 * pi)) (- 1)]))\<rparr>,
        Dual (1 / 4 + ln (2 * pi)) (- 1 / 2),
        [Dual (ln (2 * pi)) 0, Dual (1 / 2 + ln (2 * pi)) (- 1)],
        Some \<lparr>priv_value = Some (Scalar (Dual 4 0)), priv_per_sample = Some (Vec [Dual 3 0, Dual 5 0])\<rparr>,
        Some (if use_prior_var s then 1 else 0))"
  using assms
  by (simp add: elbo_loss_def example_rec example_prior_loss and_then_simps
      Let_def Loss_add_def Loss_update_def Loss_init_def const_def dual_simps field_simps)


section \<open>Reconstruction\<close>

lemma sum_list_uminus: "sum_list (map uminus xs) = - sum_list (xs :: dual list)"
  by (induction xs) simp_all

lemma sum_list_uminus_img:
  "sum_list (map (\<lambda>row. sum_list (map uminus row)) img) = - sum_list (map sum_list (img :: dual list list))"
  by (induction img) (simp_all add: sum_list_uminus)

lemma build_InrD:
  assumes "build cell ob T sd ds om = Inr m"
  shows "c_canvas cell \<noteq> []"
    and "final_canvas m = map (map (map (\<lambda>c. c * const om))) (last (c_canvas cell))"
    and "output_distrib m = \<lparr>n_loc = final_canvas m, n_scale = sd\<rparr>"
    and "obs m = ob"
  using assms
  by (auto simp add: build_def Let_def last_map split: if_splits)

section \<open>Stages of the training step\<close>

lemma train_step_InrD:
  assumes "train_step ext self a s = Inr r"
  obtains nsp0 analytic opt1 opt2 where
    "num_steps_prior a = Some nsp0"
    "analytic = (case nsp_analytic nsp0 of None \<Rightarrow> True | Some b \<Rightarrow> b)"
    "elbo_loss ext self a (nsp0\<lparr>nsp_analytic := Some analytic\<rparr>) s =
       Inr (r_loss r, r_rec_loss r, r_rec_loss_per_sample r, r_prior_loss r, r_prior_weight r)"
    "reinforce_stage ext self a analytic (r_loss r) (r_rec_loss_per_sample r) (r_prior_loss r) =
       Inr (opt1, r_reinforce_imp_weight r, r_reinforce r)"
    "r_model_vars r = model_vars_of ext (r_reinforce r)"
    "l2_stage a (r_model_vars r) opt1 = Inr (r_opt_loss r, r_l2_loss r)"
    "baseline_stage self a
       \<lparr>op_learning_rate = learning_rate a, op_objective = r_opt_loss r, op_var_list = r_model_vars r\<rparr>
       (r_reinforce_imp_weight r) (r_reinforce r) = Inr (r_train_step r, r_baseline_loss r)"
proof -
  from assms obtain nsp0 where n: "num_steps_prior a = Some nsp0"
    by (cases "num_steps_prior a") (simp_all add: train_step_def)
  define analytic where "analytic = (case nsp_analytic nsp0 of None \<Rightarrow> True | Some b \<Rightarrow> b)"
  from assms n obtain loss rec rec_ps pl pw where
    e: "elbo_loss ext self a (nsp0\<lparr>nsp_analytic := Some analytic\<rparr>) s = Inr (loss, rec, rec_ps, pl, pw)"
    unfolding train_step_def analytic_def
    by (simp add: Let_def and_then_Inr) (metis prod_cases5)
  from assms n e obtain opt1 imp_w ro where
    rs: "reinforce_stage ext self a analytic loss rec_ps pl = Inr (opt1, imp_w, ro)"
    unfolding train_step_def analytic_def[symmetric]
    by (simp add: Let_def and_then_Inr analytic_def) (metis prod_cases3)
  from assms n e rs obtain opt2 l2 where
    l: "l2_stage a (model_vars_of ext ro) opt1 = Inr (opt2, l2)"
    unfolding train_step_def
    by (simp add: Let_def and_then_Inr analytic_def) (metis surj_pair)
  from assms n e rs l obtain steps bl where
    b: "baseline_stage self a
       \<lparr>op_learning_rate = learning_rate a, op_objective = opt2, op_var_list = model_vars_of ext ro\<rparr>
       imp_w ro = Inr (steps, bl)"
    unfolding train_step_def
    by (simp add: Let_def and_then_Inr analytic_def) (metis surj_pair)
  from assms n e rs l b have
    r: "r = \<lparr>r_loss = loss, r_opt_loss = opt2, r_rec_loss = rec,
          r_rec_loss_per_sample = rec_ps, r_prior_loss = pl, r_prior_weight = pw,
          r_reinforce_imp_weight = imp_w, r_reinforce = ro, r_l2_loss = l2,
          r_model_vars = model_vars_of ext ro, r_baseline_loss = bl, r_train_step = steps\<rparr>"
    unfolding train_step_def
    by (simp add: Let_def and_then_simps analytic_def)
  show ?thesis
    by (rule that[of nsp0 analytic opt1]) (simp_all add: n analytic_def[symmetric] e rs l b r)
qed


lemma mult_const_0: "x * const 0 = 0"
  by (simp add: const_simps)

lemma mult_const_1: "x * const 1 = x"
  by (simp add: const_simps)

lemma Loss_update_value_scalar:
  assumes "priv_value l1 = Some (Scalar x)" "Loss_update l1 Attr_value e w = Inr l"
  shows "\<exists>pv. e = Some (Scalar pv) \<and> l = l1\<lparr>priv_value := Some (Scalar (x + pv * const w))\<rparr>"
proof (cases e)
  case None
  with assms show ?thesis by (simp add: Loss_update_def)
next
  case (Some t)
  show ?thesis
  proof (cases t)
    case (Scalar pv)
    with assms Some show ?thesis by (simp add: Loss_update_def Let_def)
  next
    case (Vec xs)
    with assms Some show ?thesis by (simp add: Loss_update_def Let_def)
  qed
qed

lemma Loss_update_per_sample_keeps_value:
  assumes "Loss_update l1 Attr_per_sample e w = Inr l"
  shows "priv_value l = priv_value l1"
  using assms
  by (auto simp add: Loss_update_def Let_def split: option.splits if_splits sum.splits)

lemma Loss_add_value_scalar:
  assumes "priv_value l1 = Some (Scalar x)" "Loss_add l1 (Of_Loss p) ps w = Inr l"
  shows "\<exists>pv. priv_value p = Some (Scalar pv) \<and> priv_value l = Some (Scalar (x + pv * const w))"
proof -
  from assms(2) obtain l2 where
    u1: "Loss_update l1 Attr_value (priv_value p) w = Inr l2" and
    u2: "Loss_update l2 Attr_per_sample (priv_per_sample p) w = Inr l"
    by (auto simp add: Loss_add_def split: sum.splits)
  from Loss_update_value_scalar[OF assms(1) u1] obtain pv where
    "priv_value p = Some (Scalar pv)" "l2 = l1\<lparr>priv_value := Some (Scalar (x + pv * const w))\<rparr>"
    by blast
  with Loss_update_per_sample_keeps_value[OF u2] show ?thesis by simp
qed

lemma elbo_loss_InrD:
  assumes "elbo_loss ext self a nsp s = Inr (loss, rec, rec_ps, pl, pw)"
  shows "rec_loss_per_sample self = Inr rec_ps"
    and "rec_loss self = Inr rec"
    and "use_prior a = None \<Longrightarrow> pl = None \<and> pw = None \<and> priv_value loss = Some (Scalar rec)"
    and "use_prior a \<noteq> None \<Longrightarrow>
          \<exists>p sw pv. pl = Some p \<and> pw = Some (if use_prior_var s then 1 else 0) \<and>
            prior_loss ext self (what_prior a) (where_scale_prior a) (where_shift_prior a)
              (Some nsp) (global_step s) = Inr (p, sw) \<and>
            priv_value p = Some (Scalar pv) \<and>
            priv_value loss = Some (Scalar (rec + pv * const (if use_prior_var s then 1 else 0)))"
proof -
  from assms obtain x l1 where
    rpx: "rec_loss_per_sample self = Inr x" and
    l1x: "Loss_add Loss_init (Of_expr (Some (Scalar (reduce_mean (Vec x))))) (Some (Vec x)) 1 = Inr l1" and
    restx: "(case use_prior a of
       None \<Rightarrow> Inr (l1, reduce_mean (Vec x), x, None, None)
     | Some u \<Rightarrow>
         and_then (prior_loss ext self (what_prior a) (where_scale_prior a) (where_shift_prior a)
                     (Some nsp) (global_step s)) (\<lambda>(pl, step_weight).
         let prior_weight = (if use_prior_var s = True then 1 else 0) in
         and_then (Loss_add l1 (Of_Loss pl) None prior_weight) (\<lambda>loss2.
         Inr (loss2, reduce_mean (Vec x), x, Some pl, Some prior_weight)))) =
      Inr (loss, rec, rec_ps, pl, pw)"
    unfolding elbo_loss_def by (auto simp add: and_then_Inr Let_def simp del: reduce_mean.simps)
  have x: "x = rec_ps"
    using restx by (cases "use_prior a") (auto simp add: and_then_Inr Let_def simp del: reduce_mean.simps)
  note rp = rpx[unfolded x] and l1 = l1x[unfolded x] and rest = restx[unfolded x]
  have l1v: "priv_value l1 = Some (Scalar (reduce_mean (Vec rec_ps)))"
    using l1 by (auto simp add: Loss_add_def Loss_update_def Loss_init_def Let_def mult_const_1
        simp del: reduce_mean.simps)
  have rec: "rec = reduce_mean (Vec rec_ps)"
    using rest by (cases "use_prior a") (auto simp add: and_then_Inr Let_def simp del: reduce_mean.simps)
  show "rec_loss_per_sample self = Inr rec_ps" by (rule rp)
  show "rec_loss self = Inr rec" by (simp add: rec_loss_def rp and_then_simps rec del: reduce_mean.simps)
  show "use_prior a = None \<Longrightarrow> pl = None \<and> pw = None \<and> priv_value loss = Some (Scalar rec)"
    using rest l1v rec by (auto simp del: reduce_mean.simps)
  show "use_prior a \<noteq> None \<Longrightarrow>
          \<exists>p sw pv. pl = Some p \<and> pw = Some (if use_prior_var s then 1 else 0) \<and>
            prior_loss ext self (what_prior a) (where_scale_prior a) (where_shift_prior a)
              (Some nsp) (global_step s) = Inr (p, sw) \<and>
            priv_value p = Some (Scalar pv) \<and>
            priv_value loss = Some (Scalar (rec + pv * const (if use_prior_var s then 1 else 0)))"
  proof -
    assume "use_prior a \<noteq> None"
    then obtain u where u: "use_prior a = Some u" by auto
    from rest u obtain p sw where
      pr: "prior_loss ext self (what_prior a) (where_scale_prior a) (where_shift_prior a)
              (Some nsp) (global_step s) = Inr (p, sw)" and
      ad: "Loss_add l1 (Of_Loss p) None (if use_prior_var s then 1 else 0) = Inr loss" and
      eq: "pl = Some p" "pw = Some (if use_prior_var s then 1 else 0)"
      by (auto simp add: and_then_Inr Let_def simp del: reduce_mean.simps)
    from Loss_add_value_scalar[OF l1v ad] obtain pv where
      "priv_value p = Some (Scalar pv)"
      "priv_value loss = Some (Scalar (reduce_mean (Vec rec_ps) + pv * const (if use_prior_var s then 1 else 0)))"
      by blast
    with pr eq rec show ?thesis by blast
  qed
qed


lemma reinforce_stage_on:
  assumes "reinforce_stage ext self a analytic loss rec_ps pl = Inr (opt1, imp_w, ro)" "use_reinforce a"
  obtains w r where "imp_w = Some w" "ro = Some r"
    "reinforce_imp_weight analytic rec_ps pl = Inr w"
    "reinforce ext self (baseline a) w (decay_rate a) = Inr r"
    "broadcast (+) (Loss_value loss) (Scalar (ro_loss r)) = Inr opt1"
  using assms unfolding reinforce_stage_def
  by (auto simp add: and_then_Inr Let_def)

lemma reinforce_stage_off:
  assumes "reinforce_stage ext self a analytic loss rec_ps pl = Inr (opt1, imp_w, ro)" "\<not> use_reinforce a"
  shows "imp_w = None \<and> ro = None \<and> opt1 = Loss_value loss"
  using assms unfolding reinforce_stage_def
  by (auto simp add: Let_def)

lemma l2_stage_InrD:
  assumes "l2_stage a vars opt1 = Inr (opt2, l2)"
  shows "(0 < l2_weight a \<longrightarrow>
            l2 = Some (const (l2_weight a) * sum_list (map l2_loss (filter (\<lambda>w. length (var_shape w) = 2) vars)))
            \<and> broadcast (+) opt1 (Scalar (the l2)) = Inr opt2)
       \<and> (\<not> 0 < l2_weight a \<longrightarrow> l2 = None \<and> opt2 = opt1)"
  using assms unfolding l2_stage_def
  by (auto simp add: and_then_Inr Let_def split: if_splits)

lemma reinforce_InrD:
  assumes "reinforce ext self b iw d = Inr ro"
  shows "broadcast (*) (tmap stop_gradient (ro_importance_weight ro))
           (Vec (nsd_log_prob ext (num_steps_distrib self) (num_step_per_sample self)))
         = Inr (ro_loss_per_sample ro)"
    and "ro_loss ro = reduce_mean (ro_loss_per_sample ro)"
    and "ro_baseline ro = (case b of None \<Rightarrow> None
                           | Some (Baseline_module out vars) \<Rightarrow> Some out
                           | Some (Baseline_tensor t) \<Rightarrow> Some t)"
    and "ro_baseline_vars ro = (case b of Some (Baseline_module out vars) \<Rightarrow> Some vars | _ \<Rightarrow> None)"
    and "\<exists>iw1. (case ro_baseline ro of None \<Rightarrow> Inr iw | Some bt \<Rightarrow> broadcast (-) iw bt) = Inr iw1 \<and>
           ro_importance_weight ro =
             (case d of
                None \<Rightarrow> iw1
              | Some decay \<Rightarrow>
                  (let (mean, var) = moments ext iw1;
                       imp_weight_moving_mean =
                         make_moving_average ext ''imp_weight_moving_mean'' mean 0 decay;
                       imp_weight_moving_var =
                         make_moving_average ext ''imp_weight_moving_var'' var 1 decay;
                       factor = dmaximum (dsqrt imp_weight_moving_var) (const 1)
                   in tmap (\<lambda>x. ddivide (x - imp_weight_moving_mean) factor) iw1))"
  using assms unfolding reinforce_def
  by (auto simp add: and_then_Inr Let_def simp del: reduce_mean.simps)

lemma stop_gradient_times:
  "stop_gradient w * l = Dual (primal w * primal l) (primal w * tangent l)"
  by (simp add: stop_gradient_def times_dual_def)

lemma broadcast_detached:
  assumes "length iw = length lp"
  shows "broadcast (*) (tmap stop_gradient (Vec iw)) (Vec lp) =
         Inr (Vec (map2 (\<lambda>w l. Dual (primal w * primal l) (primal w * tangent l)) iw lp))"
  using assms
  by (simp add: zip_map1 case_prod_unfold stop_gradient_times)

text \<open>
  C5. In a model that \<^verbatim>\<open>_build\<close> has built, the mean of the output
  distribution is the last step of the canvas multiplied by the output multiplier and
  its standard deviation is \<^verbatim>\<open>output_std\<close>. Whenever the log-density of the
  observation is defined (the shapes agree), it is the per-pixel Normal log-density, the
  per-sample reconstruction loss is the negated sum of it over the pixels of the sample,
  and the reconstruction loss is the batch mean of that. These are the values that
  \<^verbatim>\<open>train_step\<close> reports.
\<close>

theorem output_distribution_rec_loss:
  assumes "build cell ob T sd ds om = Inr m"
  shows "final_canvas m = map (map (map (\<lambda>c. c * const om))) (last (c_canvas cell))
       \<and> output_distrib m = \<lparr>n_loc = final_canvas m, n_scale = sd\<rparr>
       \<and> (\<forall>lp. log_prob (output_distrib m) (obs m) = Inr lp \<longrightarrow>
            lp = map2 (map2 (map2 (\<lambda>l v. normal_log_prob l sd v))) (final_canvas m) ob \<and>
            rec_loss_per_sample m = Inr (map (\<lambda>img. - sum_list (map sum_list img)) lp) \<and>
            rec_loss m = Inr (reduce_mean (Vec (map (\<lambda>img. - sum_list (map sum_list img)) lp))))
       \<and> (\<forall>ext a s r. train_step ext m a s = Inr r \<longrightarrow>
            rec_loss_per_sample m = Inr (r_rec_loss_per_sample r) \<and> rec_loss m = Inr (r_rec_loss r))"
proof (intro conjI allI impI)
  show "final_canvas m = map (map (map (\<lambda>c. c * const om))) (last (c_canvas cell))"
    by (rule build_InrD(2)[OF assms])
  show od: "output_distrib m = \<lparr>n_loc = final_canvas m, n_scale = sd\<rparr>"
    by (rule build_InrD(3)[OF assms])
  fix lp assume lp: "log_prob (output_distrib m) (obs m) = Inr lp"
  then show "lp = map2 (map2 (map2 (\<lambda>l v. normal_log_prob l sd v))) (final_canvas m) ob"
    unfolding od build_InrD(4)[OF assms]
    by (simp add: log_prob_def split: if_splits)
  show ps: "rec_loss_per_sample m = Inr (map (\<lambda>img. - sum_list (map sum_list img)) lp)"
    by (simp add: rec_loss_per_sample_def lp and_then_simps sum_list_uminus_img comp_def del: map_eq_conv)
  show "rec_loss m = Inr (reduce_mean (Vec (map (\<lambda>img. - sum_list (map sum_list img)) lp)))"
    by (simp add: rec_loss_def ps and_then_simps)
next
  fix ext a s r assume t: "train_step ext m a s = Inr r"
  from t obtain nsp where
    e: "elbo_loss ext m a nsp s =
       Inr (r_loss r, r_rec_loss r, r_rec_loss_per_sample r, r_prior_loss r, r_prior_weight r)"
    by (rule train_step_InrD)
  show "rec_loss_per_sample m = Inr (r_rec_loss_per_sample r)"
    by (rule elbo_loss_InrD(1)[OF e])
  show "rec_loss m = Inr (r_rec_loss r)"
    by (rule elbo_loss_InrD(2)[OF e])
qed



lemma example_build:
  "build example_cell example_obs 2 1 True 1 = Inr example_model"
  by (simp add: example_model_def build_def example_cell_def Let_def)

theorem output_distribution_rec_loss_witness:
  "build example_cell example_obs 2 1 True 1 = Inr example_model
   \<and> final_canvas example_model = [[[Dual 1 0, Dual 2 0]], [[Dual 0 1, Dual 1 0]]]
   \<and> output_distrib example_model = \<lparr>n_loc = [[[Dual 1 0, Dual 2 0]], [[Dual 0 1, Dual 1 0]]], n_scale = 1\<rparr>
   \<and> log_prob (output_distrib example_model) (obs example_model) =
       Inr [[[Dual (- (ln (2 * pi) / 2)) 0, Dual (- (ln (2 * pi) / 2)) 0]],
            [[Dual (- (1 / 2) - ln (2 * pi) / 2) 1, Dual (- (ln (2 * pi) / 2)) 0]]]
   \<and> rec_loss_per_sample example_model =
       Inr [Dual (ln (2 * pi)) 0, Dual (1 / 2 + ln (2 * pi)) (- 1)]
   \<and> rec_loss example_model = Inr (Dual (1 / 4 + ln (2 * pi)) (- (1 / 2)))"
proof -
  let ?lp = "[[[Dual (- (ln (2 * pi) / 2)) 0, Dual (- (ln (2 * pi) / 2)) 0]],
            [[Dual (- (1 / 2) - ln (2 * pi) / 2) 1, Dual (- (ln (2 * pi) / 2)) 0]]]"
  note th = output_distribution_rec_loss[OF example_build]
  have fc: "final_canvas example_model = [[[Dual 1 0, Dual 2 0]], [[Dual 0 1, Dual 1 0]]]"
    using th by (simp add: example_cell_def const_def dual_simps)
  have od: "output_distrib example_model =
      \<lparr>n_loc = [[[Dual 1 0, Dual 2 0]], [[Dual 0 1, Dual 1 0]]], n_scale = 1\<rparr>"
    using th fc by simp
  have lp: "log_prob (output_distrib example_model) (obs example_model) = Inr ?lp"
    unfolding od
    by (simp add: example_model_eq log_prob_def normal_log_prob_def const_def dual_simps Let_def)
  from th lp have
    ps: "rec_loss_per_sample example_model = Inr (map (\<lambda>img. - sum_list (map sum_list img)) ?lp)" and
    rl: "rec_loss example_model = Inr (reduce_mean (Vec (map (\<lambda>img. - sum_list (map sum_list img)) ?lp)))"
    by blast+
  have ps': "rec_loss_per_sample example_model =
       Inr [Dual (ln (2 * pi)) 0, Dual (1 / 2 + ln (2 * pi)) (- 1)]"
    unfolding ps by (simp add: dual_simps)
  have rl': "rec_loss example_model = Inr (Dual (1 / 4 + ln (2 * pi)) (- (1 / 2)))"
    unfolding rl by (simp add: dual_simps const_def field_simps)
  show ?thesis
    using example_build fc od lp ps' rl' by blast
qed

section \<open>The training step on the instance\<close>

lemma example_args_simps:
  "learning_rate example_args = 1 / 1000" "l2_weight example_args = 0"
  "what_prior example_args = None" "where_scale_prior example_args = None"
  "where_shift_prior example_args = None" "num_steps_prior example_args = Some example_steps_prior"
  "use_prior example_args = Some True" "use_reinforce example_args = True"
  "baseline example_args = None" "decay_rate example_args = None"
  by (simp_all add: example_args_def)

lemma example_log_prob:
  "nsd_log_prob example_ext m k = [Dual (- 1) 1, Dual (- 2) 1]"
  by (simp add: example_ext_def)


lemma example_nsp_analytic: "nsp_analytic example_steps_prior = None"
  by (simp add: example_steps_prior_def)

lemma example_reinforce:
  "reinforce example_ext example_model None (Vec [Dual x x', Dual y y']) None =
    Inr \<lparr>ro_baseline = None, ro_baseline_vars = None,
           ro_importance_weight = Vec [Dual x x', Dual y y'],
           ro_loss_per_sample = Vec [Dual (- x) x, Dual (- (y * 2)) y],
           ro_loss = Dual ((- x - y * 2) / 2) ((x + y) / 2)\<rparr>"
  by (simp add: reinforce_def example_log_prob and_then_simps Let_def stop_gradient_def dual_simps const_def)


lemma example_train:
  "train_step example_ext example_model example_args (initial_session example_args) =
    Inr \<lparr>r_loss =
           \<lparr>priv_value = Some (Scalar (Dual (17 / 4 + ln (2 * pi)) (- (1 / 2)))),
              priv_per_sample =
                Some (Vec [Dual (3 + ln (2 * pi)) 0, Dual (11 / 2 + ln (2 * pi)) (- 1)])\<rparr>,
           r_opt_loss =
             Scalar (Dual (17 / 4 + ln (2 * pi) + (- (3 * ln (2 * pi)) - 1) / 2)
                ((2 * ln (2 * pi) - 1 / 2) / 2)),
           r_rec_loss = Dual (1 / 4 + ln (2 * pi)) (- (1 / 2)),
           r_rec_loss_per_sample = [Dual (ln (2 * pi)) 0, Dual (1 / 2 + ln (2 * pi)) (- 1)],
           r_prior_loss =
             Some \<lparr>priv_value = Some (Scalar (Dual 4 0)),
                    priv_per_sample = Some (Vec [Dual 3 0, Dual 5 0])\<rparr>,
           r_prior_weight = Some 1,
           r_reinforce_imp_weight =
             Some (Vec [Dual (ln (2 * pi)) 0, Dual (1 / 2 + ln (2 * pi)) (- 1)]),
           r_reinforce =
             Some \<lparr>ro_baseline = None, ro_baseline_vars = None,
                 ro_importance_weight = Vec [Dual (ln (2 * pi)) 0, Dual (1 / 2 + ln (2 * pi)) (- 1)],
                 ro_loss_per_sample =
                   Vec [Dual (- ln (2 * pi)) (ln (2 * pi)),
                        Dual (- 1 - ln (2 * pi) * 2) (1 / 2 + ln (2 * pi))],
                 ro_loss = Dual ((- (3 * ln (2 * pi)) - 1) / 2) ((2 * ln (2 * pi) + 1 / 2) / 2)\<rparr>,
           r_l2_loss = None,
           r_model_vars = remdups (trainable_variables example_ext),
           r_baseline_loss = None,
           r_train_step =
             [\<lparr>op_learning_rate = 1 / 1000,
               op_objective =
                 Scalar (Dual (17 / 4 + ln (2 * pi) + (- (3 * ln (2 * pi)) - 1) / 2)
                   ((2 * ln (2 * pi) - 1 / 2) / 2)),
               op_var_list = remdups (trainable_variables example_ext)\<rparr>]\<rparr>"
  by (simp add: train_step_def example_args_simps example_nsp_analytic example_elbo and_then_simps
      Let_def initial_session_def reinforce_stage_def reinforce_imp_weight_def example_reinforce
      Loss_value_def Loss_get_value_def model_vars_of_def l2_stage_def baseline_stage_def
      dual_simps)

text \<open>
  C10. With \<^verbatim>\<open>num_steps_prior\<close> None, \<^verbatim>\<open>train_step\<close> fails for every
  model, every other argument and every session (storing the default of
  \<^verbatim>\<open>analytic\<close> into None is a TypeError), and \<^verbatim>\<open>_prior_loss\<close> called
  with None fails too (AttributeError). The other priors may be None: the instance, whose
  appearance and pose priors are None, succeeds.
\<close>

theorem train_step_requires_num_steps_prior:
  "train_step ext self (a\<lparr>num_steps_prior := None\<rparr>) s = Inl TypeError
   \<and> prior_loss ext self wp sp hp None step = Inl AttributeError
   \<and> what_prior example_args = None \<and> where_scale_prior example_args = None
   \<and> where_shift_prior example_args = None
   \<and> (\<exists>r. train_step example_ext example_model example_args (initial_session example_args) = Inr r)"
proof -
  have "train_step ext self (a\<lparr>num_steps_prior := None\<rparr>) s = Inl TypeError"
    by (simp add: train_step_def)
  moreover have "prior_loss ext self wp sp hp None step = Inl AttributeError"
    by (simp add: prior_loss_def)
  moreover have "\<exists>r. train_step example_ext example_model example_args
      (initial_session example_args) = Inr r"
    by (simp add: example_train)
  ultimately show ?thesis
    by (simp add: example_args_simps)
qed

theorem train_step_requires_num_steps_prior_witness:
  "train_step example_ext example_model (example_args\<lparr>num_steps_prior := None\<rparr>)
      (initial_session example_args) = Inl TypeError
   \<and> prior_loss example_ext example_model None None None None 0 = Inl AttributeError"
  using train_step_requires_num_steps_prior[of example_ext example_model example_args
      "initial_session example_args" None None None 0]
  by simp

text \<open>
  C2. Whenever \<^verbatim>\<open>train_step\<close> succeeds with \<^verbatim>\<open>use_reinforce\<close>, the
  per-sample REINFORCE loss is the product of the detached importance weight and the
  log-probability of the realised step count under the step-count posterior: for vectors
  of one length, sample by sample, its value is the product of the values and its
  derivative is the value of the weight times the derivative of the log-probability,
  with no contribution from the derivative of the weight. Its batch mean is added to the
  optimized objective (with the L2 term when there is one), while the reported value of
  the accumulator is the reconstruction loss plus the weighted KL term only.
\<close>

theorem reinforce_loss_in_objective:
  assumes "train_step ext self a s = Inr r" "use_reinforce a"
  shows "\<exists>ro v. r_reinforce r = Some ro \<and>
     broadcast (*) (tmap stop_gradient (ro_importance_weight ro))
        (Vec (nsd_log_prob ext (num_steps_distrib self) (num_step_per_sample self)))
       = Inr (ro_loss_per_sample ro) \<and>
     (\<forall>iw. ro_importance_weight ro = Vec iw \<and>
           length iw = length (nsd_log_prob ext (num_steps_distrib self) (num_step_per_sample self))
        \<longrightarrow> ro_loss_per_sample ro =
             Vec (map2 (\<lambda>w l. Dual (primal w * primal l) (primal w * tangent l)) iw
                    (nsd_log_prob ext (num_steps_distrib self) (num_step_per_sample self)))) \<and>
     ro_loss ro = reduce_mean (ro_loss_per_sample ro) \<and>
     Loss_value (r_loss r) = Scalar v \<and>
     (r_prior_weight r = None \<longrightarrow> v = r_rec_loss r) \<and>
     (\<forall>w. r_prior_weight r = Some w \<longrightarrow>
        (\<exists>p pv. r_prior_loss r = Some p \<and> priv_value p = Some (Scalar pv) \<and>
                v = r_rec_loss r + pv * const w)) \<and>
     r_opt_loss r = Scalar (v + ro_loss ro + (case r_l2_loss r of None \<Rightarrow> 0 | Some l \<Rightarrow> l))"
proof -
  from assms(1) obtain nsp0 analytic opt1 where
    e: "elbo_loss ext self a (nsp0\<lparr>nsp_analytic := Some analytic\<rparr>) s =
       Inr (r_loss r, r_rec_loss r, r_rec_loss_per_sample r, r_prior_loss r, r_prior_weight r)" and
    rs: "reinforce_stage ext self a analytic (r_loss r) (r_rec_loss_per_sample r) (r_prior_loss r) =
       Inr (opt1, r_reinforce_imp_weight r, r_reinforce r)" and
    l: "l2_stage a (r_model_vars r) opt1 = Inr (r_opt_loss r, r_l2_loss r)"
    by (rule train_step_InrD)
  from rs assms(2) obtain w ro where
    ro: "r_reinforce r = Some ro" and
    re: "reinforce ext self (baseline a) w (decay_rate a) = Inr ro" and
    o1: "broadcast (+) (Loss_value (r_loss r)) (Scalar (ro_loss ro)) = Inr opt1"
    by (rule reinforce_stage_on)
  obtain v where v: "priv_value (r_loss r) = Some (Scalar v)" and
    v1: "r_prior_weight r = None \<longrightarrow> v = r_rec_loss r" and
    v2: "\<forall>w. r_prior_weight r = Some w \<longrightarrow>
        (\<exists>p pv. r_prior_loss r = Some p \<and> priv_value p = Some (Scalar pv) \<and>
                v = r_rec_loss r + pv * const w)"
  proof (cases "use_prior a")
    case None
    from elbo_loss_InrD(3)[OF e None] show ?thesis using that[of "r_rec_loss r"] by simp
  next
    case (Some u)
    then have "use_prior a \<noteq> None" by simp
    from elbo_loss_InrD(4)[OF e this] obtain p sw pv where
      "r_prior_loss r = Some p" "r_prior_weight r = Some (if use_prior_var s then 1 else 0)"
      "priv_value p = Some (Scalar pv)"
      "priv_value (r_loss r) = Some (Scalar (r_rec_loss r + pv * const (if use_prior_var s then 1 else 0)))"
      by blast
    then show ?thesis
      using that[of "r_rec_loss r + pv * const (if use_prior_var s then 1 else 0)"] by simp
  qed
  have lv: "Loss_value (r_loss r) = Scalar v"
    by (simp add: Loss_value_def Loss_get_value_def v)
  have opt1: "opt1 = Scalar (v + ro_loss ro)"
    using o1 unfolding lv by simp
  have opt2: "r_opt_loss r = Scalar (v + ro_loss ro + (case r_l2_loss r of None \<Rightarrow> 0 | Some l \<Rightarrow> l))"
    using l2_stage_InrD[OF l] unfolding opt1 by (cases "0 < l2_weight a") auto
  have ps: "\<forall>iw. ro_importance_weight ro = Vec iw \<and>
           length iw = length (nsd_log_prob ext (num_steps_distrib self) (num_step_per_sample self))
        \<longrightarrow> ro_loss_per_sample ro =
             Vec (map2 (\<lambda>w l. Dual (primal w * primal l) (primal w * tangent l)) iw
                    (nsd_log_prob ext (num_steps_distrib self) (num_step_per_sample self)))"
    using reinforce_InrD(1)[OF re] by (auto simp add: broadcast_detached simp del: broadcast.simps tmap.simps)
  show ?thesis
    by (rule exI[of _ ro], rule exI[of _ v])
      (intro conjI ro reinforce_InrD(1)[OF re] reinforce_InrD(2)[OF re] ps lv v1 v2 opt2)
qed


theorem reinforce_loss_in_objective_witness:
  "\<exists>r ro. train_step example_ext example_model example_args (initial_session example_args) = Inr r
     \<and> use_reinforce example_args
     \<and> r_reinforce r = Some ro
     \<and> ro_importance_weight ro = Vec [Dual (ln (2 * pi)) 0, Dual (1 / 2 + ln (2 * pi)) (- 1)]
     \<and> nsd_log_prob example_ext (num_steps_distrib example_model) (num_step_per_sample example_model)
         = [Dual (- 1) 1, Dual (- 2) 1]
     \<and> ro_loss_per_sample ro =
         Vec [Dual (ln (2 * pi) * (- 1)) (ln (2 * pi) * 1),
              Dual ((1 / 2 + ln (2 * pi)) * (- 2)) ((1 / 2 + ln (2 * pi)) * 1)]
     \<and> ro_loss ro = reduce_mean (ro_loss_per_sample ro)
     \<and> Loss_value (r_loss r) = Scalar (Dual (1 / 4 + ln (2 * pi)) (- (1 / 2)) + Dual 4 0 * const 1)
     \<and> r_opt_loss r =
         Scalar (Dual (1 / 4 + ln (2 * pi)) (- (1 / 2)) + Dual 4 0 * const 1 + ro_loss ro)"
proof -
  obtain r where t: "train_step example_ext example_model example_args
      (initial_session example_args) = Inr r"
    and f: "r_rec_loss r = Dual (1 / 4 + ln (2 * pi)) (- (1 / 2))"
      "r_prior_weight r = Some 1"
      "r_prior_loss r = Some \<lparr>priv_value = Some (Scalar (Dual 4 0)),
                               priv_per_sample = Some (Vec [Dual 3 0, Dual 5 0])\<rparr>"
      "r_l2_loss r = None"
      "\<exists>ro. r_reinforce r = Some ro \<and>
         ro_importance_weight ro = Vec [Dual (ln (2 * pi)) 0, Dual (1 / 2 + ln (2 * pi)) (- 1)]"
    using example_train by simp
  have u: "use_reinforce example_args" by (simp add: example_args_simps)
  let ?lp = "nsd_log_prob example_ext (num_steps_distrib example_model) (num_step_per_sample example_model)"
  have lp: "?lp = [Dual (- 1) 1, Dual (- 2) 1]" by (rule example_log_prob)
  from reinforce_loss_in_objective[OF t u] obtain ro v where
    ro: "r_reinforce r = Some ro" and
    ps: "\<forall>iw. ro_importance_weight ro = Vec iw \<and> length iw = length ?lp
        \<longrightarrow> ro_loss_per_sample ro =
             Vec (map2 (\<lambda>w l. Dual (primal w * primal l) (primal w * tangent l)) iw ?lp)" and
    rl: "ro_loss ro = reduce_mean (ro_loss_per_sample ro)" and
    lv: "Loss_value (r_loss r) = Scalar v" and
    v2: "\<forall>w. r_prior_weight r = Some w \<longrightarrow>
        (\<exists>p pv. r_prior_loss r = Some p \<and> priv_value p = Some (Scalar pv) \<and>
                v = r_rec_loss r + pv * const w)" and
    ol: "r_opt_loss r = Scalar (v + ro_loss ro + (case r_l2_loss r of None \<Rightarrow> 0 | Some l \<Rightarrow> l))"
    by blast
  from f(5) ro have iw: "ro_importance_weight ro =
      Vec [Dual (ln (2 * pi)) 0, Dual (1 / 2 + ln (2 * pi)) (- 1)]"
    by simp
  have "ro_loss_per_sample ro =
      Vec (map2 (\<lambda>w l. Dual (primal w * primal l) (primal w * tangent l))
             [Dual (ln (2 * pi)) 0, Dual (1 / 2 + ln (2 * pi)) (- 1)] ?lp)"
    using ps iw by (simp add: lp)
  then have ps': "ro_loss_per_sample ro =
         Vec [Dual (ln (2 * pi) * (- 1)) (ln (2 * pi) * 1),
              Dual ((1 / 2 + ln (2 * pi)) * (- 2)) ((1 / 2 + ln (2 * pi)) * 1)]"
    unfolding lp by simp
  from v2 f(2) f(3) f(1) have v: "v = Dual (1 / 4 + ln (2 * pi)) (- (1 / 2)) + Dual 4 0 * const 1"
    by auto
  have ol': "r_opt_loss r =
      Scalar (Dual (1 / 4 + ln (2 * pi)) (- (1 / 2)) + Dual 4 0 * const 1 + ro_loss ro)"
    using ol unfolding v f(4) by simp
  show ?thesis
    by (rule exI[of _ r], rule exI[of _ ro])
      (intro conjI t u ro iw lp ps' rl lv[unfolded v] ol')
qed

lemmas ev = train_step_def example_args_simps example_nsp_analytic example_elbo and_then_simps
      Let_def initial_session_def reinforce_stage_def reinforce_imp_weight_def
      Loss_value_def Loss_per_sample_def Loss_get_value_def model_vars_of_def l2_stage_def baseline_stage_def
      dual_simps reinforce_def example_log_prob stop_gradient_def const_def toggle_prior_def
      make_baseline_train_step_def l2_loss_def

lemma example_trainable:
  "trainable_variables example_ext =
     [\<lparr>var_name = ''w'', var_shape = [1, 2], var_data = [Dual 1 1, Dual 2 0]\<rparr>,
      \<lparr>var_name = ''b'', var_shape = [2], var_data = [Dual 3 0, Dual 4 0]\<rparr>,
      \<lparr>var_name = ''baseline/w'', var_shape = [1, 1], var_data = [Dual 5 0]\<rparr>]"
  by (simp add: example_ext_def)

lemma example_discrete: "discrete_steps example_model"
  by (simp add: example_model_eq)


section \<open>The session does not decide whether the step can be built\<close>

lemma Loss_update_ok:
  "(\<exists>r. Loss_update l n e w = Inr r) =
   (\<exists>t. e = Some t \<and> (case getattr l n of None \<Rightarrow> True | Some v \<Rightarrow> get_shape v = get_shape t))"
proof (cases e)
  case None
  then show ?thesis by (simp add: Loss_update_def)
next
  case (Some t)
  show ?thesis
  proof (cases "getattr l n")
    case None
    with Some show ?thesis by (simp add: Loss_update_def Let_def)
  next
    case (Some v)
    show ?thesis
    proof (cases "get_shape v = get_shape t")
      case True
      then obtain x where "broadcast (+) v (scale w t) = Inr x"
        using broadcast_same_shape[of v "scale w t" "(+)"] by (auto simp add: get_shape_scale)
      with True Some \<open>e = Some t\<close> show ?thesis
        by (simp add: Loss_update_def Let_def get_shape_scale)
    next
      case False
      with Some \<open>e = Some t\<close> show ?thesis
        by (simp add: Loss_update_def Let_def get_shape_scale)
    qed
  qed
qed

lemma Loss_update_value_keeps_per_sample:
  assumes "Loss_update l Attr_value e w = Inr r"
  shows "priv_per_sample r = priv_per_sample l"
  using assms
  by (auto simp add: Loss_update_def Let_def split: option.splits if_splits sum.splits)

lemma Loss_add_ok_weight:
  assumes "Loss_add l x ps w = Inr r"
  shows "\<exists>r'. Loss_add l x ps w' = Inr r'"
proof -
  define e1 where "e1 = (case x of Of_Loss l0 \<Rightarrow> priv_value l0 | Of_expr e \<Rightarrow> e)"
  define e2 where "e2 = (case x of Of_Loss l0 \<Rightarrow> priv_per_sample l0 | Of_expr e \<Rightarrow> ps)"
  have unf: "\<And>u. Loss_add l x ps u =
      (case Loss_update l Attr_value e1 u of
         Inl err \<Rightarrow> Inl err
       | Inr self1 \<Rightarrow> Loss_update self1 Attr_per_sample e2 u)"
    unfolding e1_def e2_def Loss_add_def by (cases x) (simp_all split: sum.splits)
  from assms obtain l2 where
    u1: "Loss_update l Attr_value e1 w = Inr l2" and u2: "Loss_update l2 Attr_per_sample e2 w = Inr r"
    unfolding unf by (auto split: sum.splits)
  from u1 obtain l2' where u1': "Loss_update l Attr_value e1 w' = Inr l2'"
    using Loss_update_ok[of l Attr_value e1 w] Loss_update_ok[of l Attr_value e1 w'] by blast
  have "getattr l2' Attr_per_sample = getattr l2 Attr_per_sample"
    using Loss_update_value_keeps_per_sample[OF u1] Loss_update_value_keeps_per_sample[OF u1'] by simp
  then obtain r' where "Loss_update l2' Attr_per_sample e2 w' = Inr r'"
    using u2 Loss_update_ok[of l2 Attr_per_sample e2 w] Loss_update_ok[of l2' Attr_per_sample e2 w']
    by auto
  with u1' show ?thesis unfolding unf by simp
qed

lemma elbo_loss_session:
  assumes "elbo_loss ext self a nsp s = Inr (loss, rec, rec_ps, pl, pw)"
    and "global_step s' = global_step s"
  shows "\<exists>loss' pw'. elbo_loss ext self a nsp s' = Inr (loss', rec, rec_ps, pl, pw')"
proof -
  from assms(1) obtain x l1 where
    rpx: "rec_loss_per_sample self = Inr x" and
    l1x: "Loss_add Loss_init (Of_expr (Some (Scalar (reduce_mean (Vec x))))) (Some (Vec x)) 1 = Inr l1" and
    restx: "(case use_prior a of
       None \<Rightarrow> Inr (l1, reduce_mean (Vec x), x, None, None)
     | Some u \<Rightarrow>
         and_then (prior_loss ext self (what_prior a) (where_scale_prior a) (where_shift_prior a)
                     (Some nsp) (global_step s)) (\<lambda>(pl, step_weight).
         let prior_weight = (if use_prior_var s = True then 1 else 0) in
         and_then (Loss_add l1 (Of_Loss pl) None prior_weight) (\<lambda>loss2.
         Inr (loss2, reduce_mean (Vec x), x, Some pl, Some prior_weight)))) =
      Inr (loss, rec, rec_ps, pl, pw)"
    unfolding elbo_loss_def by (auto simp add: and_then_Inr Let_def simp del: reduce_mean.simps)
  show ?thesis
  proof (cases "use_prior a")
    case None
    with rpx l1x restx show ?thesis
      by (auto simp add: elbo_loss_def and_then_simps Let_def simp del: reduce_mean.simps)
  next
    case (Some u)
    with restx obtain p sw where
      pr: "prior_loss ext self (what_prior a) (where_scale_prior a) (where_shift_prior a)
              (Some nsp) (global_step s) = Inr (p, sw)" and
      ad: "Loss_add l1 (Of_Loss p) None (if use_prior_var s then 1 else 0) = Inr loss" and
      eq: "rec = reduce_mean (Vec x)" "rec_ps = x" "pl = Some p"
      by (auto simp add: and_then_Inr Let_def simp del: reduce_mean.simps)
    from Loss_add_ok_weight[OF ad] obtain loss' where
      "Loss_add l1 (Of_Loss p) None (if use_prior_var s' then 1 else 0) = Inr loss'"
      by blast
    with Some rpx l1x pr eq assms(2) show ?thesis
      by (simp add: elbo_loss_def and_then_simps Let_def del: reduce_mean.simps)
  qed
qed

lemma elbo_loss_value:
  assumes "elbo_loss ext self a nsp s = Inr (loss, rec, rec_ps, pl, pw)"
  shows "\<exists>v. Loss_value loss = Scalar v \<and> (\<not> use_prior_var s \<longrightarrow> v = rec)"
proof (cases "use_prior a")
  case None
  from elbo_loss_InrD(3)[OF assms None] show ?thesis
    by (simp add: Loss_value_def Loss_get_value_def)
next
  case (Some u)
  then have "use_prior a \<noteq> None" by simp
  from elbo_loss_InrD(4)[OF assms this] obtain pv where
    "priv_value loss = Some (Scalar (rec + pv * const (if use_prior_var s then 1 else 0)))"
    by blast
  then show ?thesis
    by (simp add: Loss_value_def Loss_get_value_def mult_const_0)
qed

lemma reinforce_stage_value:
  assumes "reinforce_stage ext self a an loss rec_ps pl = Inr (opt1, imp_w, ro)"
    and "Loss_value loss = Scalar v"
  shows "opt1 = Scalar (v + (case ro of None \<Rightarrow> 0 | Some r \<Rightarrow> ro_loss r))"
    and "(ro = None) = (\<not> use_reinforce a)"
proof -
  show "opt1 = Scalar (v + (case ro of None \<Rightarrow> 0 | Some r \<Rightarrow> ro_loss r))"
  proof (cases "use_reinforce a")
    case True
    from reinforce_stage_on[OF assms(1) True] obtain w r where
      "ro = Some r" "broadcast (+) (Loss_value loss) (Scalar (ro_loss r)) = Inr opt1"
      by metis
    then show ?thesis by (simp add: assms(2))
  next
    case False
    from reinforce_stage_off[OF assms(1) False] show ?thesis by (simp add: assms(2))
  qed
  show "(ro = None) = (\<not> use_reinforce a)"
  proof (cases "use_reinforce a")
    case True
    from reinforce_stage_on[OF assms(1) True] obtain r where "ro = Some r" by metis
    with True show ?thesis by simp
  next
    case False
    from reinforce_stage_off[OF assms(1) False] False show ?thesis by simp
  qed
qed

lemma reinforce_stage_loss:
  assumes "reinforce_stage ext self a an loss rec_ps pl = Inr (opt1, imp_w, ro)"
    and "Loss_value loss' = Scalar v'"
  shows "\<exists>opt1'. reinforce_stage ext self a an loss' rec_ps pl = Inr (opt1', imp_w, ro)"
proof (cases "use_reinforce a")
  case True
  from reinforce_stage_on[OF assms(1) True] obtain w r where
    "imp_w = Some w" "ro = Some r" "reinforce_imp_weight an rec_ps pl = Inr w"
    "reinforce ext self (baseline a) w (decay_rate a) = Inr r"
    by metis
  with True assms(2) show ?thesis
    by (simp add: reinforce_stage_def and_then_simps)
next
  case False
  from reinforce_stage_off[OF assms(1) False] False show ?thesis
    by (simp add: reinforce_stage_def)
qed

lemma l2_stage_scalar:
  "\<exists>opt2 l2. l2_stage a vars (Scalar x) = Inr (opt2, l2)"
  by (simp add: l2_stage_def Let_def and_then_simps)

lemma baseline_stage_main:
  assumes "baseline_stage self a m1 w ro = Inr (steps, bl)"
  shows "\<exists>steps'. baseline_stage self a m2 w ro = Inr (steps', bl)"
  using assms unfolding baseline_stage_def
  by (auto simp add: and_then_Inr Let_def split: option.splits if_splits prod.splits)

lemma train_step_session:
  assumes "train_step ext self a s = Inr r" and "global_step s' = global_step s"
  shows "\<exists>r'. train_step ext self a s' = Inr r'"
proof -
  from assms(1) obtain nsp0 analytic opt1 opt2 where
    n: "num_steps_prior a = Some nsp0" and
    an: "analytic = (case nsp_analytic nsp0 of None \<Rightarrow> True | Some b \<Rightarrow> b)" and
    e: "elbo_loss ext self a (nsp0\<lparr>nsp_analytic := Some analytic\<rparr>) s =
       Inr (r_loss r, r_rec_loss r, r_rec_loss_per_sample r, r_prior_loss r, r_prior_weight r)" and
    rs: "reinforce_stage ext self a analytic (r_loss r) (r_rec_loss_per_sample r) (r_prior_loss r) =
       Inr (opt1, r_reinforce_imp_weight r, r_reinforce r)" and
    mv: "r_model_vars r = model_vars_of ext (r_reinforce r)" and
    b: "baseline_stage self a
       \<lparr>op_learning_rate = learning_rate a, op_objective = r_opt_loss r, op_var_list = r_model_vars r\<rparr>
       (r_reinforce_imp_weight r) (r_reinforce r) = Inr (r_train_step r, r_baseline_loss r)"
    by (rule train_step_InrD)
  from elbo_loss_session[OF e assms(2)] obtain loss' pw' where
    e': "elbo_loss ext self a (nsp0\<lparr>nsp_analytic := Some analytic\<rparr>) s' =
       Inr (loss', r_rec_loss r, r_rec_loss_per_sample r, r_prior_loss r, pw')"
    by blast
  from elbo_loss_value[OF e'] obtain v' where v': "Loss_value loss' = Scalar v'" by blast
  from reinforce_stage_loss[OF rs v'] obtain opt1' where
    rs': "reinforce_stage ext self a analytic loss' (r_rec_loss_per_sample r) (r_prior_loss r) =
       Inr (opt1', r_reinforce_imp_weight r, r_reinforce r)"
    by blast
  from elbo_loss_value[OF e'] reinforce_stage_value(1)[OF rs' v'] obtain x where
    x: "opt1' = Scalar x" by blast
  from l2_stage_scalar[of a "model_vars_of ext (r_reinforce r)" x] obtain opt2' l2' where
    l': "l2_stage a (model_vars_of ext (r_reinforce r)) opt1' = Inr (opt2', l2')"
    unfolding x by blast
  from baseline_stage_main[OF b] obtain steps' where
    b': "baseline_stage self a
       \<lparr>op_learning_rate = learning_rate a, op_objective = opt2',
          op_var_list = model_vars_of ext (r_reinforce r)\<rparr>
       (r_reinforce_imp_weight r) (r_reinforce r) = Inr (steps', r_baseline_loss r)"
    by blast
  show ?thesis
    unfolding train_step_def
    by (simp add: n an[symmetric] e' rs' l' b' and_then_simps Let_def)
qed


lemma train_step_use_prior_off:
  assumes "train_step ext self a s = Inr r" "\<not> use_prior_var s"
  shows "Loss_value (r_loss r) = Scalar (r_rec_loss r)"
    and "rec_loss self = Inr (r_rec_loss r)"
    and "r_opt_loss r = Scalar (r_rec_loss r + (case r_reinforce r of None \<Rightarrow> 0 | Some ro \<Rightarrow> ro_loss ro)
                               + (case r_l2_loss r of None \<Rightarrow> 0 | Some l \<Rightarrow> l))"
    and "(r_reinforce r = None) = (\<not> use_reinforce a)"
    and "(r_l2_loss r = None) = (\<not> 0 < l2_weight a)"
proof -
  from assms(1) obtain nsp0 analytic opt1 where
    e: "elbo_loss ext self a (nsp0\<lparr>nsp_analytic := Some analytic\<rparr>) s =
       Inr (r_loss r, r_rec_loss r, r_rec_loss_per_sample r, r_prior_loss r, r_prior_weight r)" and
    rs: "reinforce_stage ext self a analytic (r_loss r) (r_rec_loss_per_sample r) (r_prior_loss r) =
       Inr (opt1, r_reinforce_imp_weight r, r_reinforce r)" and
    l: "l2_stage a (r_model_vars r) opt1 = Inr (r_opt_loss r, r_l2_loss r)"
    by (rule train_step_InrD)
  from elbo_loss_value[OF e] assms(2) show lv: "Loss_value (r_loss r) = Scalar (r_rec_loss r)"
    by auto
  show "rec_loss self = Inr (r_rec_loss r)"
    by (rule elbo_loss_InrD(2)[OF e])
  note o1 = reinforce_stage_value(1)[OF rs lv]
  show "r_opt_loss r = Scalar (r_rec_loss r + (case r_reinforce r of None \<Rightarrow> 0 | Some ro \<Rightarrow> ro_loss ro)
                               + (case r_l2_loss r of None \<Rightarrow> 0 | Some l \<Rightarrow> l))"
    using l2_stage_InrD[OF l] unfolding o1 by (cases "0 < l2_weight a") auto
  show "(r_reinforce r = None) = (\<not> use_reinforce a)"
    by (rule reinforce_stage_value(2)[OF rs lv])
  show "(r_l2_loss r = None) = (\<not> 0 < l2_weight a)"
    using l2_stage_InrD[OF l] by (cases "0 < l2_weight a") auto
qed

text \<open>
  C4, as amended. If the training step can be built and evaluated at all, then the same
  graph evaluated with the \<^verbatim>\<open>use_prior\<close> variable off (which is what
  \<^verbatim>\<open>toggle_prior\<close> makes of a session where it is on) succeeds, and there the
  reported value of the accumulator is the reconstruction loss alone, a function of the
  model and not of the priors. The L2 term is no part of it: it enters the optimized
  objective only, which is the reconstruction loss plus the REINFORCE loss (when
  \<^verbatim>\<open>use_reinforce\<close> is set) plus the L2 term (when the L2 weight is positive).
\<close>

theorem use_prior_off_reported_loss:
  assumes "train_step ext self a s = Inr r0"
  shows "\<exists>r. train_step ext self a (s\<lparr>use_prior_var := False\<rparr>) = Inr r \<and>
      Loss_value (r_loss r) = Scalar (r_rec_loss r) \<and> rec_loss self = Inr (r_rec_loss r) \<and>
      r_opt_loss r = Scalar (r_rec_loss r + (case r_reinforce r of None \<Rightarrow> 0 | Some ro \<Rightarrow> ro_loss ro)
                               + (case r_l2_loss r of None \<Rightarrow> 0 | Some l \<Rightarrow> l)) \<and>
      (r_reinforce r = None) = (\<not> use_reinforce a) \<and>
      (r_l2_loss r = None) = (\<not> 0 < l2_weight a) \<and>
      (use_prior_var s \<longrightarrow> toggle_prior s = s\<lparr>use_prior_var := False\<rparr>)"
proof -
  have "global_step (s\<lparr>use_prior_var := False\<rparr>) = global_step s" by simp
  from train_step_session[OF assms this] obtain r where
    t: "train_step ext self a (s\<lparr>use_prior_var := False\<rparr>) = Inr r"
    by blast
  have off: "\<not> use_prior_var (s\<lparr>use_prior_var := False\<rparr>)" by simp
  have tg: "use_prior_var s \<longrightarrow> toggle_prior s = s\<lparr>use_prior_var := False\<rparr>"
    by (simp add: toggle_prior_def)
  show ?thesis
    by (rule exI[of _ r])
      (intro conjI t train_step_use_prior_off[OF t off] tg)
qed

lemma ln_2pi_pos: "0 < ln (2 * pi)"
proof -
  have "1 < 2 * pi" using pi_ge_two by linarith
  then show ?thesis by (rule ln_gt_zero)
qed

lemma example_train_l2:
  "\<exists>r. train_step example_ext example_model (example_args\<lparr>l2_weight := 1\<rparr>)
     (initial_session example_args) = Inr r"
  by (simp add: ev example_trainable)

lemma example_train_l2_off:
  "train_step example_ext example_model (example_args\<lparr>l2_weight := 1\<rparr>)
        (toggle_prior (initial_session example_args)) =
       Inr \<lparr>r_loss =
              \<lparr>priv_value = Some (Scalar (Dual (1 / 4 + ln (2 * pi)) (- (1 / 2)))),
                 priv_per_sample =
                   Some (Vec [Dual (ln (2 * pi)) 0, Dual (1 / 2 + ln (2 * pi)) (- 1)])\<rparr>,
              r_opt_loss =
                Scalar (Dual (61 / 4 + (ln (2 * pi) + (- (3 * ln (2 * pi)) - 1) / 2))
                   ((2 * ln (2 * pi) - 1 / 2) / 2 + 1)),
              r_rec_loss = Dual (1 / 4 + ln (2 * pi)) (- (1 / 2)),
              r_rec_loss_per_sample = [Dual (ln (2 * pi)) 0, Dual (1 / 2 + ln (2 * pi)) (- 1)],
              r_prior_loss =
                Some \<lparr>priv_value = Some (Scalar (Dual 4 0)),
                       priv_per_sample = Some (Vec [Dual 3 0, Dual 5 0])\<rparr>,
              r_prior_weight = Some 0,
              r_reinforce_imp_weight =
                Some (Vec [Dual (ln (2 * pi)) 0, Dual (1 / 2 + ln (2 * pi)) (- 1)]),
              r_reinforce =
                Some \<lparr>ro_baseline = None, ro_baseline_vars = None,
                    ro_importance_weight = Vec [Dual (ln (2 * pi)) 0, Dual (1 / 2 + ln (2 * pi)) (- 1)],
                    ro_loss_per_sample =
                      Vec [Dual (- ln (2 * pi)) (ln (2 * pi)),
                           Dual (- 1 - ln (2 * pi) * 2) (1 / 2 + ln (2 * pi))],
                    ro_loss = Dual ((- (3 * ln (2 * pi)) - 1) / 2) ((2 * ln (2 * pi) + 1 / 2) / 2)\<rparr>,
              r_l2_loss = Some (Dual 15 1),
              r_model_vars =
                [\<lparr>var_name = ''w'', var_shape = [1, 2], var_data = [Dual 1 1, Dual 2 0]\<rparr>,
                 \<lparr>var_name = ''b'', var_shape = [2], var_data = [Dual 3 0, Dual 4 0]\<rparr>,
                 \<lparr>var_name = ''baseline/w'', var_shape = [1, 1], var_data = [Dual 5 0]\<rparr>],
              r_baseline_loss = None,
              r_train_step =
                [\<lparr>op_learning_rate = 1 / 1000,
                    op_objective =
                      Scalar (Dual (61 / 4 + (ln (2 * pi) + (- (3 * ln (2 * pi)) - 1) / 2))
                         ((2 * ln (2 * pi) - 1 / 2) / 2 + 1)),
                    op_var_list =
                      [\<lparr>var_name = ''w'', var_shape = [1, 2], var_data = [Dual 1 1, Dual 2 0]\<rparr>,
                       \<lparr>var_name = ''b'', var_shape = [2], var_data = [Dual 3 0, Dual 4 0]\<rparr>,
                       \<lparr>var_name = ''baseline/w'', var_shape = [1, 1],
                          var_data = [Dual 5 0]\<rparr>]\<rparr>]\<rparr>"
  by (simp add: ev example_trainable)

text \<open>
  C4 as stated fails. On the instance with L2 weight 1 and the \<^verbatim>\<open>use_prior\<close>
  variable toggled off, the reconstruction loss has value \<open>1/4 + ln (2 \<pi>)\<close> and the L2
  term has value 15; the reported value of the accumulator is the reconstruction loss,
  not the reconstruction loss plus the L2 term, and the optimized objective differs from
  that sum too, by the REINFORCE loss.
\<close>

theorem use_prior_off_objective_counterexample:
  "map_sum id r_rec_loss
     (train_step example_ext example_model (example_args\<lparr>l2_weight := 1\<rparr>)
        (toggle_prior (initial_session example_args)))
     = Inr (Dual (1 / 4 + ln (2 * pi)) (- (1 / 2)))
   \<and> map_sum id r_l2_loss
     (train_step example_ext example_model (example_args\<lparr>l2_weight := 1\<rparr>)
        (toggle_prior (initial_session example_args)))
     = Inr (Some (Dual 15 1))
   \<and> map_sum id (Loss_value \<circ> r_loss)
     (train_step example_ext example_model (example_args\<lparr>l2_weight := 1\<rparr>)
        (toggle_prior (initial_session example_args)))
     = Inr (Scalar (Dual (1 / 4 + ln (2 * pi)) (- (1 / 2))))
   \<and> Scalar (Dual (1 / 4 + ln (2 * pi)) (- (1 / 2)))
       \<noteq> Scalar (Dual (1 / 4 + ln (2 * pi)) (- (1 / 2)) + Dual 15 1)
   \<and> map_sum id r_opt_loss
     (train_step example_ext example_model (example_args\<lparr>l2_weight := 1\<rparr>)
        (toggle_prior (initial_session example_args)))
     = Inr (Scalar (Dual (61 / 4 + (ln (2 * pi) + (- (3 * ln (2 * pi)) - 1) / 2))
                      ((2 * ln (2 * pi) - 1 / 2) / 2 + 1)))
   \<and> Scalar (Dual (61 / 4 + (ln (2 * pi) + (- (3 * ln (2 * pi)) - 1) / 2))
                      ((2 * ln (2 * pi) - 1 / 2) / 2 + 1))
       \<noteq> Scalar (Dual (1 / 4 + ln (2 * pi)) (- (1 / 2)) + Dual 15 1)"
proof -
  define L where "L = ln (2 * pi)"
  have "0 < L" unfolding L_def by (rule ln_2pi_pos)
  then have "- (1 / 2) + 1 < (2 * L - 1 / 2) / 2 + 1"
    by (simp add: field_simps)
  then have "- (1 / 2) + 1 < (2 * ln (2 * pi) - 1 / 2) / 2 + 1"
    unfolding L_def .
  then have ne: "(2 * ln (2 * pi) - 1 / 2) / 2 + 1 \<noteq> - (1 / 2) + 1"
    by (rule less_imp_neq[THEN not_sym])
  have v: "map_sum id (Loss_value \<circ> r_loss)
     (train_step example_ext example_model (example_args\<lparr>l2_weight := 1\<rparr>)
        (toggle_prior (initial_session example_args)))
     = Inr (Scalar (Dual (1 / 4 + ln (2 * pi)) (- (1 / 2))))"
    by (simp add: example_train_l2_off Loss_value_def Loss_get_value_def)
  have n1: "Scalar (Dual (1 / 4 + ln (2 * pi)) (- (1 / 2)))
       \<noteq> Scalar (Dual (1 / 4 + ln (2 * pi)) (- (1 / 2)) + Dual 15 1)"
    by (simp add: dual_simps)
  have n2: "Scalar (Dual (61 / 4 + (ln (2 * pi) + (- (3 * ln (2 * pi)) - 1) / 2))
                      ((2 * ln (2 * pi) - 1 / 2) / 2 + 1))
       \<noteq> Scalar (Dual (1 / 4 + ln (2 * pi)) (- (1 / 2)) + Dual 15 1)"
    using ne unfolding dual_simps by simp
  show ?thesis
    by (intro conjI v n1 n2) (simp_all add: example_train_l2_off)
qed

theorem use_prior_off_reported_loss_witness:
  "\<exists>r. train_step example_ext example_model (example_args\<lparr>l2_weight := 1\<rparr>)
        (toggle_prior (initial_session example_args)) = Inr r
     \<and> Loss_value (r_loss r) = Scalar (r_rec_loss r)
     \<and> rec_loss example_model = Inr (r_rec_loss r)
     \<and> r_opt_loss r = Scalar (r_rec_loss r
          + (case r_reinforce r of None \<Rightarrow> 0 | Some ro \<Rightarrow> ro_loss ro)
          + (case r_l2_loss r of None \<Rightarrow> 0 | Some l \<Rightarrow> l))
     \<and> r_reinforce r \<noteq> None \<and> r_l2_loss r \<noteq> None"
proof -
  from example_train_l2 obtain r0 where
    t0: "train_step example_ext example_model (example_args\<lparr>l2_weight := 1\<rparr>)
     (initial_session example_args) = Inr r0"
    by blast
  have on: "use_prior_var (initial_session example_args)"
    by (simp add: initial_session_def example_args_simps)
  have a: "use_reinforce (example_args\<lparr>l2_weight := 1\<rparr>)" "0 < l2_weight (example_args\<lparr>l2_weight := 1\<rparr>)"
    by (simp_all add: example_args_simps)
  from use_prior_off_reported_loss[OF t0] on a show ?thesis
    by auto
qed

section \<open>The importance weight and the baseline\<close>

lemma Loss_per_sample_is_value: "Loss_per_sample l = Loss_value l"
  by (simp add: Loss_per_sample_def Loss_value_def Loss_get_value_def)

text \<open>
  C1 fails on the code. The instance with a prior that is not analytic has per-sample
  reconstruction losses \<open>ln (2 \<pi>)\<close> and \<open>1/2 + ln (2 \<pi>)\<close> and per-sample prior losses 3
  and 5, whose batch mean is 4. The importance weight that \<^verbatim>\<open>train_step\<close> forms
  adds 4 to both samples, not 3 and 5: the \<^verbatim>\<open>per_sample\<close> property of the
  accumulator returns its scalar value.
\<close>

theorem importance_weight_adds_mean_prior_loss:
  "map_sum id r_rec_loss_per_sample
     (train_step example_ext example_model
        (example_args\<lparr>num_steps_prior := Some (example_steps_prior\<lparr>nsp_analytic := Some False\<rparr>)\<rparr>)
        (initial_session example_args))
     = Inr [Dual (ln (2 * pi)) 0, Dual (1 / 2 + ln (2 * pi)) (- 1)]
   \<and> map_sum id r_prior_loss
     (train_step example_ext example_model
        (example_args\<lparr>num_steps_prior := Some (example_steps_prior\<lparr>nsp_analytic := Some False\<rparr>)\<rparr>)
        (initial_session example_args))
     = Inr (Some \<lparr>priv_value = Some (Scalar (Dual 4 0)),
                   priv_per_sample = Some (Vec [Dual 3 0, Dual 5 0])\<rparr>)
   \<and> map_sum id r_reinforce_imp_weight
     (train_step example_ext example_model
        (example_args\<lparr>num_steps_prior := Some (example_steps_prior\<lparr>nsp_analytic := Some False\<rparr>)\<rparr>)
        (initial_session example_args))
     = Inr (Some (Vec [Dual (ln (2 * pi) + 4) 0, Dual (1 / 2 + ln (2 * pi) + 4) (- 1)]))
   \<and> Loss_per_sample \<lparr>priv_value = Some (Scalar (Dual 4 0)),
                       priv_per_sample = Some (Vec [Dual 3 0, Dual 5 0])\<rparr>
     = Scalar (Dual 4 0)"
  by (simp add: ev)


lemma baseline_stage_on:
  assumes "baseline_stage self a main_step (Some w) (Some ro) = Inr (steps, bl)"
    and "use_reinforce a" "discrete_steps self" "baseline a \<noteq> None"
    and "ro_baseline ro = Some b" "ro_baseline_vars ro = Some vs"
  shows "\<exists>diff l. broadcast (-) (tmap stop_gradient w) b = Inr diff \<and>
           l = const (1 / 2) * reduce_mean (tmap (\<lambda>x. x * x) diff) \<and>
           bl = Some l \<and>
           steps = [main_step, \<lparr>op_learning_rate = 10 * learning_rate a, op_objective = Scalar l,
                                 op_var_list = vs\<rparr>]"
  using assms unfolding baseline_stage_def make_baseline_train_step_def
  by (auto simp add: and_then_Inr Let_def simp del: reduce_mean.simps tmap.simps broadcast.simps)

text \<open>
  C9. Whenever \<^verbatim>\<open>train_step\<close> succeeds with REINFORCE in use
  (\<^verbatim>\<open>use_reinforce\<close> and discrete steps) and a baseline module, the step it returns
  groups the main update with a baseline update. The target of the baseline is the
  detached importance weight as \<^verbatim>\<open>train_step\<close> formed it, before
  \<^verbatim>\<open>_reinforce\<close> subtracted the baseline; the baseline loss is half the mean
  square of target minus prediction; the baseline update has the variables of the
  module as its variable list and ten times the learning rate; the main update has the
  learning rate itself and a variable list disjoint from the variables of the module;
  and running the baseline update leaves every variable outside the module unchanged.
\<close>

theorem baseline_train_step:
  assumes "train_step ext self a s = Inr r" "use_reinforce a" "discrete_steps self"
    "baseline a = Some (Baseline_module out bvars)"
  shows "\<exists>main bstep w diff bl ro iw1.
     r_train_step r = [main, bstep] \<and> r_reinforce_imp_weight r = Some w \<and>
     r_reinforce r = Some ro \<and> broadcast (-) w out = Inr iw1 \<and>
     (decay_rate a = None \<longrightarrow> ro_importance_weight ro = iw1) \<and>
     broadcast (-) (tmap stop_gradient w) out = Inr diff \<and>
     bl = const (1 / 2) * reduce_mean (tmap (\<lambda>x. x * x) diff) \<and>
     r_baseline_loss r = Some bl \<and>
     op_objective bstep = Scalar bl \<and> op_var_list bstep = bvars \<and>
     op_learning_rate bstep = 10 * learning_rate a \<and>
     op_learning_rate main = learning_rate a \<and> op_objective main = r_opt_loss r \<and>
     op_var_list main = r_model_vars r \<and>
     set (op_var_list main) \<inter> set bvars = {} \<and>
     (\<forall>opt v. v \<notin> set bvars \<longrightarrow> run_op opt bstep v = var_data v)"
proof -
  from assms(1) obtain nsp0 analytic opt1 where
    rs: "reinforce_stage ext self a analytic (r_loss r) (r_rec_loss_per_sample r) (r_prior_loss r) =
       Inr (opt1, r_reinforce_imp_weight r, r_reinforce r)" and
    mv: "r_model_vars r = model_vars_of ext (r_reinforce r)" and
    b: "baseline_stage self a
       \<lparr>op_learning_rate = learning_rate a, op_objective = r_opt_loss r, op_var_list = r_model_vars r\<rparr>
       (r_reinforce_imp_weight r) (r_reinforce r) = Inr (r_train_step r, r_baseline_loss r)"
    by (rule train_step_InrD)
  from rs assms(2) obtain w ro where
    w: "r_reinforce_imp_weight r = Some w" and ro: "r_reinforce r = Some ro" and
    re: "reinforce ext self (baseline a) w (decay_rate a) = Inr ro"
    by (rule reinforce_stage_on)
  have rb: "ro_baseline ro = Some out" and rv: "ro_baseline_vars ro = Some bvars"
    using reinforce_InrD(3)[OF re] reinforce_InrD(4)[OF re] by (simp_all add: assms(4))
  from reinforce_InrD(5)[OF re] obtain iw1 where
    iw1: "broadcast (-) w out = Inr iw1" and
    iw2: "decay_rate a = None \<longrightarrow> ro_importance_weight ro = iw1"
    unfolding rb by auto
  let ?main = "\<lparr>op_learning_rate = learning_rate a, op_objective = r_opt_loss r,
                 op_var_list = r_model_vars r\<rparr>"
  have bn: "baseline a \<noteq> None" by (simp add: assms(4))
  from baseline_stage_on[OF b[unfolded w ro] assms(2) assms(3) bn rb rv] obtain diff bl where
    d: "broadcast (-) (tmap stop_gradient w) out = Inr diff" and
    bl: "bl = const (1 / 2) * reduce_mean (tmap (\<lambda>x. x * x) diff)" and
    rbl: "r_baseline_loss r = Some bl" and
    st: "r_train_step r = [?main, \<lparr>op_learning_rate = 10 * learning_rate a,
                                    op_objective = Scalar bl, op_var_list = bvars\<rparr>]"
    by blast
  let ?bstep = "\<lparr>op_learning_rate = 10 * learning_rate a, op_objective = Scalar bl,
                  op_var_list = bvars\<rparr>"
  have disj: "set (op_var_list ?main) \<inter> set bvars = {}"
    by (auto simp add: mv ro rv model_vars_of_def)
  have frame: "\<forall>opt v. v \<notin> set bvars \<longrightarrow> run_op opt ?bstep v = var_data v"
    by (simp add: run_op_def)
  show ?thesis
    apply (rule exI[of _ ?main], rule exI[of _ ?bstep], rule exI[of _ w], rule exI[of _ diff],
        rule exI[of _ bl], rule exI[of _ ro], rule exI[of _ iw1])
    using st w ro iw1 iw2 d bl rbl disj frame by simp
qed


lemma example_train_baseline:
  "\<exists>r. train_step example_ext example_model
     (example_args\<lparr>baseline := Some (Baseline_module (Vec [Dual 1 2, Dual 2 1])
        [\<lparr>var_name = ''baseline/w'', var_shape = [1, 1], var_data = [Dual 5 0]\<rparr>])\<rparr>)
     (initial_session example_args) = Inr r \<and>
     r_reinforce_imp_weight r = Some (Vec [Dual (ln (2 * pi)) 0, Dual (1 / 2 + ln (2 * pi)) (- 1)])"
  by (simp add: ev example_trainable example_discrete)

theorem baseline_train_step_witness:
  "\<exists>r main bstep. train_step example_ext example_model
     (example_args\<lparr>baseline := Some (Baseline_module (Vec [Dual 1 2, Dual 2 1])
        [\<lparr>var_name = ''baseline/w'', var_shape = [1, 1], var_data = [Dual 5 0]\<rparr>])\<rparr>)
     (initial_session example_args) = Inr r
   \<and> r_train_step r = [main, bstep]
   \<and> r_reinforce_imp_weight r = Some (Vec [Dual (ln (2 * pi)) 0, Dual (1 / 2 + ln (2 * pi)) (- 1)])
   \<and> r_baseline_loss r =
       Some (const (1 / 2) * reduce_mean (tmap (\<lambda>x. x * x)
               (Vec [Dual (ln (2 * pi)) 0 - Dual 1 2, Dual (1 / 2 + ln (2 * pi)) 0 - Dual 2 1])))
   \<and> op_objective bstep = Scalar (the (r_baseline_loss r))
   \<and> op_var_list bstep = [\<lparr>var_name = ''baseline/w'', var_shape = [1, 1], var_data = [Dual 5 0]\<rparr>]
   \<and> op_learning_rate bstep = 10 * (1 / 1000)
   \<and> op_learning_rate main = 1 / 1000
   \<and> set (op_var_list main)
       \<inter> set [\<lparr>var_name = ''baseline/w'', var_shape = [1, 1], var_data = [Dual 5 0]\<rparr>] = {}
   \<and> (\<forall>opt. run_op opt bstep \<lparr>var_name = ''w'', var_shape = [1, 2], var_data = [Dual 1 1, Dual 2 0]\<rparr>
         = [Dual 1 1, Dual 2 0])"
proof -
  let ?bv = "\<lparr>var_name = ''baseline/w'', var_shape = [1, 1], var_data = [Dual 5 0]\<rparr>"
  let ?a = "example_args\<lparr>baseline := Some (Baseline_module (Vec [Dual 1 2, Dual 2 1]) [?bv])\<rparr>"
  from example_train_baseline obtain r where
    t: "train_step example_ext example_model ?a (initial_session example_args) = Inr r" and
    w0: "r_reinforce_imp_weight r = Some (Vec [Dual (ln (2 * pi)) 0, Dual (1 / 2 + ln (2 * pi)) (- 1)])"
    by blast
  have h: "use_reinforce ?a" "discrete_steps example_model"
    "baseline ?a = Some (Baseline_module (Vec [Dual 1 2, Dual 2 1]) [?bv])"
    "learning_rate ?a = 1 / 1000"
    by (simp_all add: example_args_simps example_discrete)
  from baseline_train_step[OF t h(1) h(2) h(3)] obtain main bstep w diff bl where
    st: "r_train_step r = [main, bstep]" and
    w: "r_reinforce_imp_weight r = Some w" and
    d: "broadcast (-) (tmap stop_gradient w) (Vec [Dual 1 2, Dual 2 1]) = Inr diff" and
    bl: "bl = const (1 / 2) * reduce_mean (tmap (\<lambda>x. x * x) diff)" and
    rbl: "r_baseline_loss r = Some bl" and
    ob: "op_objective bstep = Scalar bl" and
    vb: "op_var_list bstep = [?bv]" and
    lb: "op_learning_rate bstep = 10 * learning_rate ?a" and
    lm: "op_learning_rate main = learning_rate ?a" and
    dj: "set (op_var_list main) \<inter> set [?bv] = {}" and
    fr: "\<forall>opt v. v \<notin> set [?bv] \<longrightarrow> run_op opt bstep v = var_data v"
    by blast
  from w w0 have weq: "w = Vec [Dual (ln (2 * pi)) 0, Dual (1 / 2 + ln (2 * pi)) (- 1)]"
    by simp
  from d have deq: "diff = Vec [Dual (ln (2 * pi)) 0 - Dual 1 2, Dual (1 / 2 + ln (2 * pi)) 0 - Dual 2 1]"
    unfolding weq by (simp add: stop_gradient_def)
  have c4: "r_baseline_loss r =
       Some (const (1 / 2) * reduce_mean (tmap (\<lambda>x. x * x)
               (Vec [Dual (ln (2 * pi)) 0 - Dual 1 2, Dual (1 / 2 + ln (2 * pi)) 0 - Dual 2 1])))"
    unfolding rbl bl deq ..
  have c5: "op_objective bstep = Scalar (the (r_baseline_loss r))"
    unfolding ob rbl by simp
  have c10: "\<forall>opt. run_op opt bstep \<lparr>var_name = ''w'', var_shape = [1, 2], var_data = [Dual 1 1, Dual 2 0]\<rparr>
         = [Dual 1 1, Dual 2 0]"
    using fr by simp
  show ?thesis
    by (rule exI[of _ r], rule exI[of _ main], rule exI[of _ bstep])
      (intro conjI t st w0 c4 c5 vb lb[unfolded h(4)] lm[unfolded h(4)] dj c10)
qed

end
